theory Spec2Isabelle
  imports Main
begin

section \<open>JavaScript strings\<close>

text \<open>
  A JavaScript string is a sequence of UTF-16 code units; a code unit is modelled as a
  natural number.  ASCII literals of the source are written \<open>js ''...''\<close>; the Devanagari
  texts of the fallback table are written as code unit lists.
\<close>

type_synonym jsstring = "nat list"

abbreviation js :: "string \<Rightarrow> jsstring" where
  "js s \<equiv> map of_char s"

text \<open>
  The characters that \<open>String.prototype.trim\<close> strips and that the regular expression
  class \<open>\s\<close> matches: ECMAScript's WhiteSpace and LineTerminator code points.
\<close>

definition isWhiteSpace :: "nat \<Rightarrow> bool" where
  "isWhiteSpace c =
     (c = 0x09 \<or> c = 0x0A \<or> c = 0x0B \<or> c = 0x0C \<or> c = 0x0D \<or> c = 0x20 \<or> c = 0xA0 \<or>
      c = 0x1680 \<or> (0x2000 \<le> c \<and> c \<le> 0x200A) \<or> c = 0x2028 \<or> c = 0x2029 \<or>
      c = 0x202F \<or> c = 0x205F \<or> c = 0x3000 \<or> c = 0xFEFF)"

definition trim :: "jsstring \<Rightarrow> jsstring" where
  "trim s = rev (dropWhile isWhiteSpace (rev (dropWhile isWhiteSpace s)))"

text \<open>
  \<open>String.prototype.toLowerCase\<close> on the ASCII letters.  Code units outside \<open>A\<close>..\<open>Z\<close> are
  left as they are: Devanagari has no letter case, and the Unicode case mappings of other
  scripts are not modelled.
\<close>

definition lowerUnit :: "nat \<Rightarrow> nat" where
  "lowerUnit c = (if 65 \<le> c \<and> c \<le> 90 then c + 32 else c)"

definition toLowerCase :: "jsstring \<Rightarrow> jsstring" where
  "toLowerCase s = map lowerUnit s"

text \<open>\<open>s.startsWith(t)\<close> and \<open>s.includes(t)\<close>: the search for \<open>t\<close> from position 0 on.\<close>

fun startsWith :: "jsstring \<Rightarrow> jsstring \<Rightarrow> bool" where
  "startsWith s [] = True"
| "startsWith [] (y # t) = False"
| "startsWith (x # s) (y # t) = (x = y \<and> startsWith s t)"

fun js_includes :: "jsstring \<Rightarrow> jsstring \<Rightarrow> bool" where
  "js_includes [] t = startsWith [] t"
| "js_includes (x # s) t = (startsWith (x # s) t \<or> js_includes s t)"

text \<open>
  The relational comparison of two strings (\<open>a < b\<close>, and \<open>a > b\<close> as \<open>b < a\<close>):
  code unit by code unit, a proper prefix being smaller.
\<close>

fun str_less :: "jsstring \<Rightarrow> jsstring \<Rightarrow> bool" where
  "str_less [] [] = False"
| "str_less [] (y # t) = True"
| "str_less (x # s) [] = False"
| "str_less (x # s) (y # t) = (x < y \<or> (x = y \<and> str_less s t))"

text \<open>\<open>Array.prototype.some\<close> and \<open>Array.prototype.filter\<close>, left to right.\<close>

fun some :: "('a \<Rightarrow> bool) \<Rightarrow> 'a list \<Rightarrow> bool" where
  "some p [] = False"
| "some p (x # xs) = (if p x then True else some p xs)"

fun filter_arr :: "('a \<Rightarrow> bool) \<Rightarrow> 'a list \<Rightarrow> 'a list" where
  "filter_arr p [] = []"
| "filter_arr p (x # xs) = (if p x then x # filter_arr p xs else filter_arr p xs)"

section \<open>Data model\<close>

text \<open>
  The interfaces \<open>AIGeneratedQuote\<close>, \<open>Quote\<close> and \<open>DailyLog\<close> of \<open>types/index.ts\<close>.
  A \<open>Quote\<close> is an \<open>AIGeneratedQuote\<close> with the two columns the store adds.  Row
  identifiers (UUIDs) are modelled as natural numbers.
\<close>

type_synonym uuid = nat

record AIGeneratedQuote =
  shlok :: jsstring
  meaning_hindi :: jsstring
  meaning_english :: jsstring
  source :: jsstring
  category :: "jsstring option"

record Quote = AIGeneratedQuote +
  id' :: uuid
  created_at :: jsstring

record DailyLog =
  log_id :: uuid
  quote_id :: uuid
  date :: jsstring
  log_created_at :: jsstring

text \<open>
  A thrown or returned error object: an \<open>Error\<close> has a message only, a store error
  (\<open>PostgrestError\<close>) has a code as well.
\<close>

record js_error =
  code :: "jsstring option"
  message :: jsstring

definition Error :: "jsstring \<Rightarrow> js_error" where
  "Error msg = \<lparr>code = None, message = msg\<rparr>"

text \<open>The \<open>{ data, error }\<close> object a store request resolves to.\<close>

datatype 'a response = Response (data: "'a option") (error: "js_error option")

section \<open>Environment and state\<close>

text \<open>
  What the outside world does is given by an environment: the clock, the completion
  capability, the random number generator, and for every kind of store request whether
  the n-th request of that kind succeeds, resolves to an error, or throws.
\<close>

datatype fault = Succeeds | Returns_error js_error | Throws js_error

datatype ai_reply = Api_error js_error | Content "jsstring option"

record env =
  today :: jsstring
  api_key :: bool
  completion :: "nat \<Rightarrow> ai_reply"
  random :: "nat \<Rightarrow> nat"
  select_fault :: "nat \<Rightarrow> fault"
  insert_fault :: "nat \<Rightarrow> fault"
  upsert_fault :: "nat \<Rightarrow> fault"
  delete_fault :: "nat \<Rightarrow> fault"
  sixAM_instant :: "nat \<Rightarrow> nat \<Rightarrow> nat \<Rightarrow> jsstring"

text \<open>
  The user message of a completion request: the first attempt's prompt names the category
  and lists the recent shloks, the retry's prompt names the category only.
\<close>

datatype user_prompt =
  QuoteGenerationPrompt jsstring "jsstring list"
| RetryPrompt jsstring

record ai_request =
  system_content :: jsstring
  user_content :: user_prompt
  max_tokens :: nat
  temperature10 :: nat

text \<open>
  The state: the two tables of \<open>supabase-setup.sql\<close>, the next fresh row identifier, and
  counters and logs of the requests made so far (\<open>temperature10\<close> above is ten times the
  request's temperature).
\<close>

record state =
  quotes :: "Quote list"
  daily_logs :: "DailyLog list"
  next_uuid :: uuid
  n_select :: nat
  n_insert :: nat
  n_upsert :: nat
  n_delete :: nat
  n_random :: nat
  n_generate :: nat
  ai_requests :: "ai_request list"

section \<open>The store\<close>

text \<open>
  The tables follow \<open>supabase-setup.sql\<close>: \<open>quotes.category\<close> is NULL or one of the eight
  categories (CHECK), \<open>daily_logs.date\<close> is UNIQUE, and \<open>daily_logs.quote_id\<close> references
  \<open>quotes.id\<close> with ON DELETE CASCADE.  The store client is taken to be configured, so
  \<open>getSupabaseClient\<close> returns it.  Dates are held as \<open>YYYY-MM-DD\<close> strings, as the client
  receives and sends them.
\<close>

definition QUOTE_CATEGORIES :: "jsstring list" where
  "QUOTE_CATEGORIES =
     [js ''karma'', js ''peace'', js ''wisdom'', js ''devotion'',
      js ''yoga'', js ''truth'', js ''dharma'', js ''meditation'']"

text \<open>The embedded resource \<open>quotes (...)\<close> of a \<open>daily_logs\<close> row: the row it references.\<close>

definition quote_of :: "Quote list \<Rightarrow> uuid \<Rightarrow> Quote option" where
  "quote_of qs i = find (\<lambda>q. id' q = i) qs"

text \<open>\<open>.order('date', { ascending: false })\<close>: insertion sort on the date strings.\<close>

fun insert_desc :: "DailyLog \<Rightarrow> DailyLog list \<Rightarrow> DailyLog list" where
  "insert_desc l [] = [l]"
| "insert_desc l (x # xs) =
     (if str_less (date l) (date x) then x # insert_desc l xs else l # x # xs)"

definition order_by_date_desc :: "DailyLog list \<Rightarrow> DailyLog list" where
  "order_by_date_desc ls = foldr insert_desc ls []"

text \<open>Every read request consumes the environment's next verdict on reads.\<close>

definition select_request :: "env \<Rightarrow> state \<Rightarrow> fault \<times> state" where
  "select_request e s = (select_fault e (n_select s), s\<lparr>n_select := n_select s + 1\<rparr>)"

definition check_violation :: js_error where
  "check_violation =
     \<lparr>code = Some (js ''23514''),
      message = js ''new row for relation '' @ [34] @ js ''quotes'' @ [34] @
        js '' violates check constraint '' @ [34] @ js ''quotes_category_check'' @ [34]\<rparr>"

definition fk_violation :: js_error where
  "fk_violation =
     \<lparr>code = Some (js ''23503''),
      message = js ''insert or update on table '' @ [34] @ js ''daily_logs'' @ [34] @
        js '' violates foreign key constraint '' @ [34] @ js ''daily_logs_quote_id_fkey'' @ [34]\<rparr>"

text \<open>
  \<open>supabase.from('quotes').insert({...}).select().single()\<close>: the new row gets a fresh
  identifier and is returned.
\<close>

definition insert_quote ::
  "env \<Rightarrow> state \<Rightarrow> AIGeneratedQuote \<Rightarrow> jsstring \<Rightarrow> (js_error + Quote response) \<times> state" where
  "insert_quote e s a ts =
     (let s1 = s\<lparr>n_insert := n_insert s + 1\<rparr> in
      case insert_fault e (n_insert s) of
        Throws x \<Rightarrow> (Inl x, s1)
      | Returns_error x \<Rightarrow> (Inr (Response None (Some x)), s1)
      | Succeeds \<Rightarrow>
          (if (case category a of None \<Rightarrow> False | Some c \<Rightarrow> c \<notin> set QUOTE_CATEGORIES)
           then (Inr (Response None (Some check_violation)), s1)
           else
             (let q = \<lparr>shlok = shlok a, meaning_hindi = meaning_hindi a,
                       meaning_english = meaning_english a, source = source a,
                       category = category a, id' = next_uuid s, created_at = ts\<rparr>
              in (Inr (Response (Some q) None),
                  s1\<lparr>quotes := quotes s @ [q], next_uuid := next_uuid s + 1\<rparr>))))"

text \<open>
  \<open>supabase.from('daily_logs').upsert({quote_id, date, created_at}, {onConflict: 'date'})\<close>:
  the row of that date is updated if there is one, and inserted otherwise.  The result is
  the request's error, if any.
\<close>

definition upsert_daily_log ::
  "env \<Rightarrow> state \<Rightarrow> uuid \<Rightarrow> jsstring \<Rightarrow> jsstring \<Rightarrow> (js_error + js_error option) \<times> state" where
  "upsert_daily_log e s qid d ts =
     (let s1 = s\<lparr>n_upsert := n_upsert s + 1\<rparr> in
      case upsert_fault e (n_upsert s) of
        Throws x \<Rightarrow> (Inl x, s1)
      | Returns_error x \<Rightarrow> (Inr (Some x), s1)
      | Succeeds \<Rightarrow>
          (if quote_of (quotes s) qid = None then (Inr (Some fk_violation), s1)
           else if some (\<lambda>l. date l = d) (daily_logs s)
           then (Inr None,
                 s1\<lparr>daily_logs :=
                      map (\<lambda>l. if date l = d then l\<lparr>quote_id := qid, log_created_at := ts\<rparr> else l)
                        (daily_logs s)\<rparr>)
           else (Inr None,
                 s1\<lparr>daily_logs :=
                      daily_logs s @
                        [\<lparr>log_id = next_uuid s, quote_id = qid, date = d, log_created_at = ts\<rparr>],
                    next_uuid := next_uuid s + 1\<rparr>)))"

text \<open>
  \<open>supabase.from('quotes').delete().eq('id', i)\<close>; the rows of \<open>daily_logs\<close> that reference
  the deleted row go with it (ON DELETE CASCADE).
\<close>

definition delete_quote :: "env \<Rightarrow> state \<Rightarrow> uuid \<Rightarrow> (js_error + js_error option) \<times> state" where
  "delete_quote e s i =
     (let s1 = s\<lparr>n_delete := n_delete s + 1\<rparr> in
      case delete_fault e (n_delete s) of
        Throws x \<Rightarrow> (Inl x, s1)
      | Returns_error x \<Rightarrow> (Inr (Some x), s1)
      | Succeeds \<Rightarrow>
          (Inr None,
           s1\<lparr>quotes := filter_arr (\<lambda>q. id' q \<noteq> i) (quotes s),
              daily_logs := filter_arr (\<lambda>l. quote_id l \<noteq> i) (daily_logs s)\<rparr>))"

section \<open>The read paths of \<open>quoteService.ts\<close>\<close>

text \<open>
  A function that can throw returns \<open>js_error + 'a\<close>, with \<open>Inl\<close> for the thrown error;
  \<open>null\<close> is \<open>None\<close>.  The clock's date \<open>today e\<close> stands for
  \<open>new Date().toISOString().split('T')[0]\<close>; it does not change during a call.
\<close>

definition getQuoteByDate :: "env \<Rightarrow> state \<Rightarrow> jsstring \<Rightarrow> (js_error + Quote option) \<times> state" where
  "getQuoteByDate e s d =
     (if str_less (today e) d then (Inr None, s)
      else
        (case select_request e s of
           (Throws x, s1) \<Rightarrow> (Inl x, s1)
         | (Returns_error x, s1) \<Rightarrow> (Inr None, s1)
         | (Succeeds, s1) \<Rightarrow>
             (case find (\<lambda>l. date l = d) (daily_logs s1) of
                None \<Rightarrow> (Inr None, s1)
              | Some l \<Rightarrow> (Inr (quote_of (quotes s1) (quote_id l)), s1))))"

definition getTodayQuote :: "env \<Rightarrow> state \<Rightarrow> (js_error + Quote option) \<times> state" where
  "getTodayQuote e s = getQuoteByDate e s (today e)"

definition getQuoteForDate :: "env \<Rightarrow> state \<Rightarrow> jsstring \<Rightarrow> (js_error + Quote option) \<times> state" where
  "getQuoteForDate e s d =
     (if str_less (today e) d then (Inr None, s) else getQuoteByDate e s d)"

text \<open>
  \<open>getAvailableDates\<close> and \<open>getRecentQuotes\<close>: the rows with \<open>date <= today\<close>, latest
  first, at most \<open>limit\<close> of them.  A returned error is thrown.
\<close>

definition rows_lte_today :: "env \<Rightarrow> state \<Rightarrow> nat \<Rightarrow> DailyLog list" where
  "rows_lte_today e s limit =
     take limit (order_by_date_desc
       (filter_arr (\<lambda>l. \<not> str_less (today e) (date l)) (daily_logs s)))"

definition getAvailableDates :: "env \<Rightarrow> state \<Rightarrow> nat \<Rightarrow> (js_error + jsstring list) \<times> state" where
  "getAvailableDates e s limit =
     (case select_request e s of
        (Throws x, s1) \<Rightarrow> (Inl x, s1)
      | (Returns_error x, s1) \<Rightarrow> (Inl x, s1)
      | (Succeeds, s1) \<Rightarrow> (Inr (map date (rows_lte_today e s1 limit)), s1))"

definition getRecentQuotes ::
  "env \<Rightarrow> state \<Rightarrow> nat \<Rightarrow> (js_error + (Quote option \<times> jsstring) list) \<times> state" where
  "getRecentQuotes e s limit =
     (case select_request e s of
        (Throws x, s1) \<Rightarrow> (Inl x, s1)
      | (Returns_error x, s1) \<Rightarrow> (Inl x, s1)
      | (Succeeds, s1) \<Rightarrow>
          (Inr (map (\<lambda>l. (quote_of (quotes s1) (quote_id l), date l)) (rows_lte_today e s1 limit)), s1))"

text \<open>
  \<open>getQuoteById\<close>: \<open>.single()\<close> resolves to an error unless exactly one row matches.  The
  two \<open>Date\<close> objects compared are midnight UTC of the row's date and the local midnight of
  the clock's date; the process is taken to run in UTC, so \<open>quoteDate >= today\<close> compares
  the two calendar dates, which for \<open>YYYY-MM-DD\<close> strings is the comparison of the strings.
\<close>

definition getQuoteById :: "env \<Rightarrow> state \<Rightarrow> uuid \<Rightarrow> (js_error + Quote option) \<times> state" where
  "getQuoteById e s i =
     (case select_request e s of
        (Throws x, s1) \<Rightarrow> (Inl x, s1)
      | (Returns_error x, s1) \<Rightarrow> (Inr None, s1)
      | (Succeeds, s1) \<Rightarrow>
          (case filter_arr (\<lambda>l. quote_id l = i) (daily_logs s1) of
             [l] \<Rightarrow>
               (if \<not> str_less (date l) (today e) then (Inr None, s1)
                else (Inr (quote_of (quotes s1) (quote_id l)), s1))
           | _ \<Rightarrow> (Inr None, s1)))"

section \<open>\<open>JSON.parse\<close>\<close>

text \<open>
  The values \<open>JSON.parse\<close> produces, and a parser for the JSON grammar (ECMA-404) over code
  units.  A number keeps its literal text: no branch of the program reads its value.
  Recursion into nested values is bounded by a fuel that starts above the length of the
  text, and every nested value is entered after at least one code unit has been consumed.
\<close>

datatype json =
  JNull
| JBool bool
| JNum jsstring
| JStr jsstring
| JArr "json list"
| JObj "(jsstring \<times> json) list"

definition json_ws :: "nat \<Rightarrow> bool" where
  "json_ws c = (c = 0x20 \<or> c = 0x09 \<or> c = 0x0A \<or> c = 0x0D)"

definition skip_ws :: "jsstring \<Rightarrow> jsstring" where
  "skip_ws s = dropWhile json_ws s"

definition is_digit :: "nat \<Rightarrow> bool" where
  "is_digit c = (48 \<le> c \<and> c \<le> 57)"

definition hex_val :: "nat \<Rightarrow> nat option" where
  "hex_val c =
     (if 48 \<le> c \<and> c \<le> 57 then Some (c - 48)
      else if 65 \<le> c \<and> c \<le> 70 then Some (c - 55)
      else if 97 \<le> c \<and> c \<le> 102 then Some (c - 87)
      else None)"

definition hex4 :: "nat \<Rightarrow> nat \<Rightarrow> nat \<Rightarrow> nat \<Rightarrow> nat option" where
  "hex4 a b c d =
     (case (hex_val a, hex_val b, hex_val c, hex_val d) of
        (Some w, Some x, Some y, Some z) \<Rightarrow> Some (((w * 16 + x) * 16 + y) * 16 + z)
      | _ \<Rightarrow> None)"

text \<open>The characters of a string literal after its opening quote, up to the closing one.\<close>

fun parse_chars :: "jsstring \<Rightarrow> jsstring \<Rightarrow> (jsstring \<times> jsstring) option" where
  "parse_chars acc [] = None"
| "parse_chars acc [c] = (if c = 34 then Some (rev acc, []) else None)"
| "parse_chars acc (c # x # r) =
     (if c = 34 then Some (rev acc, x # r)
      else if c = 92 then
        (if x = 34 \<or> x = 92 \<or> x = 47 then parse_chars (x # acc) r
         else if x = 98 then parse_chars (8 # acc) r
         else if x = 102 then parse_chars (12 # acc) r
         else if x = 110 then parse_chars (10 # acc) r
         else if x = 114 then parse_chars (13 # acc) r
         else if x = 116 then parse_chars (9 # acc) r
         else if x = 117 then
           (case r of
              a # b # c' # d # r' \<Rightarrow>
                (case hex4 a b c' d of
                   None \<Rightarrow> None
                 | Some u \<Rightarrow> parse_chars (u # acc) r')
            | _ \<Rightarrow> None)
         else None)
      else if c < 32 then None
      else parse_chars (c # acc) (x # r))"

text \<open>A number literal: \<open>-? (0 | [1-9][0-9]*) (. [0-9]+)? ([eE] [+-]? [0-9]+)?\<close>.\<close>

definition parse_int_part :: "jsstring \<Rightarrow> (jsstring \<times> jsstring) option" where
  "parse_int_part s =
     (case s of
        [] \<Rightarrow> None
      | c # r \<Rightarrow>
          if c = 48 then Some ([c], r)
          else if is_digit c then Some (takeWhile is_digit s, dropWhile is_digit s)
          else None)"

definition parse_frac_part :: "jsstring \<Rightarrow> (jsstring \<times> jsstring) option" where
  "parse_frac_part s =
     (case s of
        [] \<Rightarrow> Some ([], s)
      | c # r \<Rightarrow>
          if c = 46 then
            (if takeWhile is_digit r = [] then None
             else Some (c # takeWhile is_digit r, dropWhile is_digit r))
          else Some ([], s))"

definition parse_exp_part :: "jsstring \<Rightarrow> (jsstring \<times> jsstring) option" where
  "parse_exp_part s =
     (case s of
        [] \<Rightarrow> Some ([], s)
      | c # r \<Rightarrow>
          if c = 101 \<or> c = 69 then
            (let sign = (case r of [] \<Rightarrow> [] | x # _ \<Rightarrow> if x = 43 \<or> x = 45 then [x] else []);
                 r1 = drop (length sign) r
             in if takeWhile is_digit r1 = [] then None
                else Some (c # sign @ takeWhile is_digit r1, dropWhile is_digit r1))
          else Some ([], s))"

definition parse_number :: "jsstring \<Rightarrow> (json \<times> jsstring) option" where
  "parse_number s =
     (let minus = (case s of [] \<Rightarrow> [] | c # _ \<Rightarrow> if c = 45 then [c] else []) in
      case parse_int_part (drop (length minus) s) of
        None \<Rightarrow> None
      | Some (i, r1) \<Rightarrow>
          (case parse_frac_part r1 of
             None \<Rightarrow> None
           | Some (f, r2) \<Rightarrow>
               (case parse_exp_part r2 of
                  None \<Rightarrow> None
                | Some (x, r3) \<Rightarrow> Some (JNum (minus @ i @ f @ x), r3))))"

fun parse_value :: "nat \<Rightarrow> jsstring \<Rightarrow> (json \<times> jsstring) option"
  and parse_elements :: "nat \<Rightarrow> json list \<Rightarrow> jsstring \<Rightarrow> (json \<times> jsstring) option"
  and parse_members :: "nat \<Rightarrow> (jsstring \<times> json) list \<Rightarrow> jsstring \<Rightarrow> (json \<times> jsstring) option"
where
  "parse_value 0 s = None"
| "parse_value (Suc n) s =
     (case skip_ws s of
        [] \<Rightarrow> None
      | c # r \<Rightarrow>
          if c = 123 then
            (case skip_ws r of
               [] \<Rightarrow> None
             | c1 # r1 \<Rightarrow> if c1 = 125 then Some (JObj [], r1) else parse_members n [] r)
          else if c = 91 then
            (case skip_ws r of
               [] \<Rightarrow> None
             | c1 # r1 \<Rightarrow> if c1 = 93 then Some (JArr [], r1) else parse_elements n [] r)
          else if c = 34 then
            (case parse_chars [] r of None \<Rightarrow> None | Some (str, r1) \<Rightarrow> Some (JStr str, r1))
          else if startsWith (c # r) (js ''true'') then Some (JBool True, drop 4 (c # r))
          else if startsWith (c # r) (js ''false'') then Some (JBool False, drop 5 (c # r))
          else if startsWith (c # r) (js ''null'') then Some (JNull, drop 4 (c # r))
          else parse_number (c # r))"
| "parse_elements 0 acc s = None"
| "parse_elements (Suc n) acc s =
     (case parse_value n s of
        None \<Rightarrow> None
      | Some (v, r) \<Rightarrow>
          (case skip_ws r of
             [] \<Rightarrow> None
           | c # r1 \<Rightarrow>
               if c = 44 then parse_elements n (v # acc) r1
               else if c = 93 then Some (JArr (rev (v # acc)), r1)
               else None))"
| "parse_members 0 acc s = None"
| "parse_members (Suc n) acc s =
     (case skip_ws s of
        [] \<Rightarrow> None
      | q # r \<Rightarrow>
          if q \<noteq> 34 then None
          else
            (case parse_chars [] r of
               None \<Rightarrow> None
             | Some (k, r1) \<Rightarrow>
                 (case skip_ws r1 of
                    [] \<Rightarrow> None
                  | c # r2 \<Rightarrow>
                      if c \<noteq> 58 then None
                      else
                        (case parse_value n r2 of
                           None \<Rightarrow> None
                         | Some (v, r3) \<Rightarrow>
                             (case skip_ws r3 of
                                [] \<Rightarrow> None
                              | c3 # r4 \<Rightarrow>
                                  if c3 = 44 then parse_members n ((k, v) # acc) r4
                                  else if c3 = 125 then Some (JObj (rev ((k, v) # acc)), r4)
                                  else None)))))"

text \<open>\<open>JSON.parse(text)\<close>; \<open>None\<close> is the thrown \<open>SyntaxError\<close>.\<close>

definition JSON_parse :: "jsstring \<Rightarrow> json option" where
  "JSON_parse s =
     (case parse_value (Suc (length s)) s of
        None \<Rightarrow> None
      | Some (v, r) \<Rightarrow> if skip_ws r = [] then Some v else None)"

section \<open>Parsing the capability's response (\<open>aiService.ts\<close>)\<close>

text \<open>
  \<open>jsonString.match(/\{[\s\S]*\}/)\<close>: the match starts at the first opening brace and,
  the star being greedy, ends at the last closing brace after it.  Without a closing brace
  after the first opening one there is no match at any later start either.
\<close>

definition match_braces :: "jsstring \<Rightarrow> jsstring option" where
  "match_braces s =
     (case dropWhile (\<lambda>c. c \<noteq> 123) s of
        [] \<Rightarrow> None
      | b # r \<Rightarrow>
          (case dropWhile (\<lambda>c. c \<noteq> 125) (rev r) of
             [] \<Rightarrow> None
           | c # t \<Rightarrow> Some (b # rev (c # t))))"

text \<open>
  What a property read, a truth test and a method call do on a parsed value.  Inside the
  \<open>try\<close> block of \<open>parseAIResponse\<close> every throw ends in the same \<open>catch\<close>, so a throw is
  \<open>None\<close> there.  A number is taken to be zero when the digits of its mantissa are all
  zero.
\<close>

datatype jsvalue = Undefined | Value json

fun lookup_last :: "(jsstring \<times> json) list \<Rightarrow> jsstring \<Rightarrow> jsvalue" where
  "lookup_last [] k = Undefined"
| "lookup_last ((k', v) # ms) k =
     (case lookup_last ms k of
        Value w \<Rightarrow> Value w
      | Undefined \<Rightarrow> if k' = k then Value v else Undefined)"

definition get_prop :: "json \<Rightarrow> jsstring \<Rightarrow> jsvalue option" where
  "get_prop v k =
     (case v of
        JNull \<Rightarrow> None
      | JObj ms \<Rightarrow> Some (lookup_last ms k)
      | _ \<Rightarrow> Some Undefined)"

definition num_is_zero :: "jsstring \<Rightarrow> bool" where
  "num_is_zero lit =
     list_all (\<lambda>c. c = 48 \<or> \<not> is_digit c) (takeWhile (\<lambda>c. c \<noteq> 101 \<and> c \<noteq> 69) lit)"

fun truthy :: "jsvalue \<Rightarrow> bool" where
  "truthy Undefined = False"
| "truthy (Value JNull) = False"
| "truthy (Value (JBool b)) = b"
| "truthy (Value (JNum lit)) = (\<not> num_is_zero lit)"
| "truthy (Value (JStr s)) = (s \<noteq> [])"
| "truthy (Value (JArr vs)) = True"
| "truthy (Value (JObj ms)) = True"

text \<open>\<open>x.trim()\<close> (a \<open>TypeError\<close> unless \<open>x\<close> is a string) and \<open>x?.trim()\<close>.\<close>

fun call_trim :: "jsvalue \<Rightarrow> jsstring option" where
  "call_trim (Value (JStr s)) = Some (trim s)"
| "call_trim _ = None"

fun call_trim_optional :: "jsvalue \<Rightarrow> jsstring option option" where
  "call_trim_optional Undefined = Some None"
| "call_trim_optional (Value JNull) = Some None"
| "call_trim_optional (Value (JStr s)) = Some (Some (trim s))"
| "call_trim_optional _ = None"

text \<open>
  The \<open>try\<close> block of \<open>parseAIResponse\<close>; \<open>extract_json\<close> is the text it hands to
  \<open>JSON.parse\<close>.
\<close>

definition extract_json :: "jsstring \<Rightarrow> jsstring" where
  "extract_json response =
     (case match_braces (trim response) of
        Some m \<Rightarrow> m
      | None \<Rightarrow> trim response)"

definition parseAIResponse_try :: "jsstring \<Rightarrow> AIGeneratedQuote option" where
  "parseAIResponse_try response =
     (let jsonString = extract_json response in
      case JSON_parse jsonString of
        None \<Rightarrow> None
      | Some parsedResponse \<Rightarrow>
          (case (get_prop parsedResponse (js ''shlok''),
                 get_prop parsedResponse (js ''meaning_hindi''),
                 get_prop parsedResponse (js ''meaning_english''),
                 get_prop parsedResponse (js ''source''),
                 get_prop parsedResponse (js ''category'')) of
             (Some sh, Some mh, Some me, Some so, Some ca) \<Rightarrow>
               (if \<not> truthy sh \<or> \<not> truthy mh \<or> \<not> truthy me \<or> \<not> truthy so then None
                else
                  (case (call_trim sh, call_trim mh, call_trim me, call_trim so,
                         call_trim_optional ca) of
                     (Some sh', Some mh', Some me', Some so', Some ca') \<Rightarrow>
                       Some \<lparr>shlok = sh', meaning_hindi = mh', meaning_english = me',
                             source = so', category = ca'\<rparr>
                   | _ \<Rightarrow> None))
           | _ \<Rightarrow> None))"

text \<open>
  \<open>response.match(/Label:\s*([^\n]+)/)\<close>, giving the captured group.  At the leftmost
  occurrence of the label the greedy \<open>\s*\<close> takes all the white space that follows and
  gives it back one code unit at a time until \<open>[^\n]+\<close> finds a code unit to start at;
  if it never does, the search goes on at the next occurrence of the label.
\<close>

definition capture_run :: "jsstring \<Rightarrow> jsstring option" where
  "capture_run s =
     (let r = takeWhile (\<lambda>c. c \<noteq> 10) s in if r = [] then None else Some r)"

fun backtrack :: "jsstring \<Rightarrow> nat \<Rightarrow> jsstring option" where
  "backtrack s 0 = capture_run s"
| "backtrack s (Suc k) =
     (case capture_run (drop (Suc k) s) of
        Some r \<Rightarrow> Some r
      | None \<Rightarrow> backtrack s k)"

definition match_rest :: "jsstring \<Rightarrow> jsstring option" where
  "match_rest s = backtrack s (length (takeWhile isWhiteSpace s))"

fun match_label :: "jsstring \<Rightarrow> jsstring \<Rightarrow> jsstring option" where
  "match_label lbl [] = (if startsWith [] lbl then match_rest (drop (length lbl) []) else None)"
| "match_label lbl (c # s) =
     (if startsWith (c # s) lbl
      then (case match_rest (drop (length lbl) (c # s)) of
              Some r \<Rightarrow> Some r
            | None \<Rightarrow> match_label lbl s)
      else match_label lbl s)"

definition parseTextFormatResponse :: "jsstring \<Rightarrow> js_error + AIGeneratedQuote" where
  "parseTextFormatResponse response =
     (let shlok' = (case match_label (js ''Shlok:'') response of
                      Some r \<Rightarrow> trim r | None \<Rightarrow> []);
          meaning_hindi' = (case match_label (js ''Meaning Hindi:'') response of
                              Some r \<Rightarrow> trim r | None \<Rightarrow> []);
          meaning_english' = (case match_label (js ''Meaning English:'') response of
                                Some r \<Rightarrow> trim r | None \<Rightarrow> []);
          source' = (case match_label (js ''Source:'') response of
                       Some r \<Rightarrow> if trim r = [] then js ''Unknown Scripture'' else trim r
                     | None \<Rightarrow> js ''Unknown Scripture'');
          category' = (case match_label (js ''Category:'') response of
                         Some r \<Rightarrow> Some (trim r) | None \<Rightarrow> None)
      in if shlok' = [] \<or> meaning_hindi' = [] \<or> meaning_english' = [] \<or> source' = []
         then Inl (Error (js ''Invalid text format response''))
         else Inr \<lparr>shlok = shlok', meaning_hindi = meaning_hindi',
                   meaning_english = meaning_english', source = source',
                   category = category'\<rparr>)"

definition parseAIResponse :: "jsstring \<Rightarrow> js_error + AIGeneratedQuote" where
  "parseAIResponse response =
     (case parseAIResponse_try response of
        Some q \<Rightarrow> Inr q
      | None \<Rightarrow>
          (case parseTextFormatResponse response of
             Inr q \<Rightarrow> Inr q
           | Inl fallbackError \<Rightarrow>
               Inl (Error (js ''Failed to parse AI response as JSON or text format''))))"

section \<open>History, categories and uniqueness (\<open>aiService.ts\<close>)\<close>

text \<open>
  \<open>Math.random()\<close> is \<open>m / 2^53\<close> for the environment's next draw \<open>m\<close>, taken below
  \<open>2^53\<close>; \<open>floor_random m n\<close> is \<open>Math.floor(Math.random() * n)\<close>, the product
  computed exactly.
\<close>

definition Math_random :: "env \<Rightarrow> state \<Rightarrow> nat \<times> state" where
  "Math_random e s = (random e (n_random s), s\<lparr>n_random := n_random s + 1\<rparr>)"

definition floor_random :: "nat \<Rightarrow> nat \<Rightarrow> nat" where
  "floor_random m n = ((m mod 2 ^ 53) * n) div 2 ^ 53"

definition getRandomCategory :: "env \<Rightarrow> state \<Rightarrow> jsstring \<times> state" where
  "getRandomCategory e s =
     (case Math_random e s of
        (m, s1) \<Rightarrow>
          (let randomIndex = floor_random m (length QUOTE_CATEGORIES)
           in (QUOTE_CATEGORIES ! randomIndex, s1)))"

text \<open>\<open>.filter(Boolean)\<close> on strings that may be undefined: the non-empty strings stay.\<close>

fun filter_Boolean :: "jsstring option list \<Rightarrow> jsstring list" where
  "filter_Boolean [] = []"
| "filter_Boolean (None # xs) = filter_Boolean xs"
| "filter_Boolean (Some x # xs) = (if x = [] then filter_Boolean xs else x # filter_Boolean xs)"

text \<open>
  \<open>getRecentlyUsedQuotes\<close>: the shloks of the latest \<open>limit\<close> publications
  (\<open>recent_shloks\<close>, what the request returns when it succeeds); a failed or throwing
  request gives the empty list.
\<close>

definition recent_shloks :: "Quote list \<Rightarrow> DailyLog list \<Rightarrow> nat \<Rightarrow> jsstring list" where
  "recent_shloks qs ls limit =
     filter_Boolean
       (map (\<lambda>l. map_option shlok (quote_of qs (quote_id l)))
          (take limit (order_by_date_desc ls)))"

definition getRecentlyUsedQuotes :: "env \<Rightarrow> state \<Rightarrow> nat \<Rightarrow> jsstring list \<times> state" where
  "getRecentlyUsedQuotes e s limit =
     (case select_request e s of
        (Succeeds, s1) \<Rightarrow> (recent_shloks (quotes s1) (daily_logs s1) limit, s1)
      | (Returns_error x, s1) \<Rightarrow> ([], s1)
      | (Throws x, s1) \<Rightarrow> ([], s1))"

text \<open>
  \<open>getQuoteUsageStats\<close> over the latest 100 publications.  \<open>counts[k] || 0\<close> is
  \<open>count_of counts k\<close>.  The source distribution, which is computed alongside and read by
  no function modelled here, is left out.
\<close>

record usage_stats =
  totalQuotes :: nat
  categoryDistribution :: "jsstring \<rightharpoonup> nat"

definition count_of :: "(jsstring \<rightharpoonup> nat) \<Rightarrow> jsstring \<Rightarrow> nat" where
  "count_of counts k = (case counts k of None \<Rightarrow> 0 | Some n \<Rightarrow> n)"

fun count_categories :: "Quote list \<Rightarrow> DailyLog list \<Rightarrow> (jsstring \<rightharpoonup> nat) \<Rightarrow> (jsstring \<rightharpoonup> nat)" where
  "count_categories qs [] categoryCount = categoryCount"
| "count_categories qs (l # ls) categoryCount =
     (case quote_of qs (quote_id l) of
        None \<Rightarrow> count_categories qs ls categoryCount
      | Some quote \<Rightarrow>
          (case category quote of
             None \<Rightarrow> count_categories qs ls categoryCount
           | Some c \<Rightarrow>
               if c = [] then count_categories qs ls categoryCount
               else count_categories qs ls (categoryCount(c \<mapsto> count_of categoryCount c + 1))))"

definition getQuoteUsageStats :: "env \<Rightarrow> state \<Rightarrow> usage_stats \<times> state" where
  "getQuoteUsageStats e s =
     (case select_request e s of
        (Succeeds, s1) \<Rightarrow>
          (let dailyLogs = take 100 (order_by_date_desc (daily_logs s1))
           in (\<lparr>totalQuotes = length dailyLogs,
                categoryDistribution = count_categories (quotes s1) dailyLogs Map.empty\<rparr>, s1))
      | (Returns_error x, s1) \<Rightarrow> (\<lparr>totalQuotes = 0, categoryDistribution = Map.empty\<rparr>, s1)
      | (Throws x, s1) \<Rightarrow> (\<lparr>totalQuotes = 0, categoryDistribution = Map.empty\<rparr>, s1))"

text \<open>
  \<open>getLeastUsedCategory\<close>; \<open>leastUsedOf\<close> is its search over the fetched counts.  Its
  \<open>catch\<close>, which would return \<open>getRandomCategory()\<close>, is never entered:
  \<open>getQuoteUsageStats\<close> catches every failure itself and nothing else in the \<open>try\<close> block
  throws.
\<close>

fun least_loop :: "(jsstring \<rightharpoonup> nat) \<Rightarrow> jsstring list \<Rightarrow> jsstring \<times> nat \<Rightarrow> jsstring \<times> nat" where
  "least_loop categoryCounts [] acc = acc"
| "least_loop categoryCounts (c # cs) (leastUsedCategory, minCount) =
     (let count = count_of categoryCounts c
      in if count < minCount then least_loop categoryCounts cs (c, count)
         else least_loop categoryCounts cs (leastUsedCategory, minCount))"

definition leastUsedOf :: "(jsstring \<rightharpoonup> nat) \<Rightarrow> jsstring" where
  "leastUsedOf categoryCounts =
     (let leastUsedCategory = QUOTE_CATEGORIES ! 0;
          minCount = count_of categoryCounts leastUsedCategory
      in fst (least_loop categoryCounts QUOTE_CATEGORIES (leastUsedCategory, minCount)))"

definition getLeastUsedCategory :: "env \<Rightarrow> state \<Rightarrow> jsstring \<times> state" where
  "getLeastUsedCategory e s =
     (case getQuoteUsageStats e s of
        (stats, s1) \<Rightarrow> (leastUsedOf (categoryDistribution stats), s1))"

text \<open>
  \<open>checkQuoteUniqueness\<close>, against the latest 30 publications; \<open>isUniqueAmong\<close> is its
  test on the fetched list.
\<close>

definition isUniqueAmong :: "jsstring list \<Rightarrow> jsstring \<Rightarrow> bool" where
  "isUniqueAmong recentQuotes shlok' =
     (\<not> some (\<lambda>quote.
            trim (toLowerCase quote) = trim (toLowerCase shlok') \<or>
            js_includes (toLowerCase quote) (toLowerCase shlok') \<or>
            js_includes (toLowerCase shlok') (toLowerCase quote)) recentQuotes)"

definition checkQuoteUniqueness :: "env \<Rightarrow> state \<Rightarrow> jsstring \<Rightarrow> bool \<times> state" where
  "checkQuoteUniqueness e s shlok' =
     (case getRecentlyUsedQuotes e s 30 of
        (recentQuotes, s1) \<Rightarrow> (isUniqueAmong recentQuotes shlok', s1))"

section \<open>The fallback table\<close>

definition fallbackQuotes :: "AIGeneratedQuote list" where
  "fallbackQuotes =
    [\<lparr>shlok =
        [2325, 2352, 2381, 2350, 2339, 2381, 2351, 2375, 2357, 2366, 2343, 2367, 2325, 2366,
         2352, 2360, 2381, 2340, 2375, 32, 2350, 2366, 32, 2347, 2354, 2375, 2359, 2369, 32,
         2325, 2342, 2366, 2330, 2344],
      meaning_hindi =
        [2340, 2369, 2350, 2381, 2361, 2366, 2352, 2366, 32, 2309, 2343, 2367, 2325, 2366,
         2352, 32, 2325, 2375, 2357, 2354, 32, 2325, 2352, 2381, 2350, 32, 2325, 2352, 2344,
         2375, 32, 2350, 2375, 2306, 32, 2361, 2376, 44, 32, 2347, 2354, 32, 2350, 2375,
         2306, 32, 2344, 2361, 2368, 2306, 2404],
      meaning_english =
        js ''You have the right to perform your actions, but never to the fruits of those actions.'',
      source = js ''Bhagavad Gita'',
      category = Some (js ''karma'')\<rparr>,
     \<lparr>shlok =
        [2325, 2352, 2381, 2350, 32, 2332, 2381, 2351, 2366, 2351, 2379, 32, 2361, 2381,
         2351, 2325, 2352, 2381, 2350, 2339, 2307],
      meaning_hindi =
        [2325, 2352, 2381, 2350, 32, 2344, 32, 2325, 2352, 2344, 2375, 32, 2360, 2375, 32,
         2325, 2352, 2381, 2350, 32, 2325, 2352, 2344, 2366, 32, 2348, 2375, 2361, 2340,
         2352, 32, 2361, 2376, 2404],
      meaning_english =
        js ''Action is superior to inaction.'',
      source = js ''Bhagavad Gita'',
      category = Some (js ''karma'')\<rparr>,
     \<lparr>shlok =
        [2351, 2340, 2381, 2325, 2352, 2381, 2350, 32, 2325, 2371, 2340, 2381, 2357, 2366,
         32, 2346, 2369, 2344, 2352, 2381, 2344, 32, 2340, 2340, 2381, 2325, 2352, 2379,
         2340, 2367, 32, 2360, 2307],
      meaning_hindi =
        [2332, 2379, 32, 2325, 2352, 2381, 2350, 32, 2325, 2352, 2325, 2375, 32, 2347, 2367,
         2352, 32, 2344, 2361, 2368, 2306, 32, 2325, 2352, 2340, 2366, 32, 2357, 2361, 2368,
         32, 2360, 2330, 2381, 2330, 2366, 32, 2325, 2352, 2381, 2350, 2368, 32, 2361, 2376,
         2404],
      meaning_english =
        js ''He who performs action without attachment to results is the true doer.'',
      source = js ''Bhagavad Gita'',
      category = Some (js ''karma'')\<rparr>,
     \<lparr>shlok =
        [2351, 2379, 2327, 58, 32, 2325, 2352, 2381, 2350, 2360, 2369, 32, 2325, 2380, 2358,
         2354, 2350, 2381],
      meaning_hindi =
        [2351, 2379, 2327, 32, 2325, 2352, 2381, 2350, 2379, 2306, 32, 2350, 2375, 2306, 32,
         2325, 2369, 2358, 2354, 2340, 2366, 32, 2361, 2376, 2404],
      meaning_english =
        js ''Yoga is skill in action and excellence in work.'',
      source = js ''Bhagavad Gita'',
      category = Some (js ''yoga'')\<rparr>,
     \<lparr>shlok =
        [2351, 2379, 2327, 58, 32, 2330, 2367, 2340, 2381, 2340, 2357, 2371, 2340, 2381,
         2340, 2367, 2344, 2367, 2352, 2379, 2343, 2307],
      meaning_hindi =
        [2351, 2379, 2327, 32, 2330, 2367, 2340, 2381, 2340, 32, 2325, 2368, 32, 2357, 2371,
         2340, 2381, 2340, 2367, 2351, 2379, 2306, 32, 2325, 2366, 32, 2344, 2367, 2352,
         2379, 2343, 32, 2361, 2376, 2404],
      meaning_english =
        js ''Yoga is the restraint of the modifications of the mind.'',
      source = js ''Yoga Sutras'',
      category = Some (js ''yoga'')\<rparr>,
     \<lparr>shlok =
        [2360, 2350, 2340, 2381, 2357, 2306, 32, 2351, 2379, 2327, 32, 2313, 2330, 2381,
         2351, 2340, 2375],
      meaning_hindi =
        [2360, 2350, 2340, 2366, 32, 2325, 2379, 32, 2351, 2379, 2327, 32, 2325, 2361, 2340,
         2375, 32, 2361, 2376, 2306, 2404],
      meaning_english =
        js ''Equanimity is called yoga.'',
      source = js ''Bhagavad Gita'',
      category = Some (js ''yoga'')\<rparr>,
     \<lparr>shlok =
        [2360, 2340, 2381, 2351, 2350, 2375, 2357, 32, 2332, 2351, 2340, 2375],
      meaning_hindi =
        [2360, 2340, 2381, 2351, 32, 2325, 2368, 32, 2361, 2368, 32, 2332, 2368, 2340, 32,
         2361, 2379, 2340, 2368, 32, 2361, 2376, 2404],
      meaning_english =
        js ''Truth alone triumphs and prevails.'',
      source = js ''Mundaka Upanishad'',
      category = Some (js ''truth'')\<rparr>,
     \<lparr>shlok =
        [2360, 2340, 2381, 2351, 2306, 32, 2357, 2342, 32, 2343, 2352, 2381, 2350, 2306, 32,
         2330, 2352],
      meaning_hindi =
        [2360, 2340, 2381, 2351, 32, 2348, 2379, 2354, 2379, 32, 2324, 2352, 32, 2343, 2352,
         2381, 2350, 32, 2325, 2366, 32, 2346, 2366, 2354, 2344, 32, 2325, 2352, 2379, 2404],
      meaning_english =
        js ''Speak the truth and follow dharma.'',
      source = js ''Taittiriya Upanishad'',
      category = Some (js ''truth'')\<rparr>,
     \<lparr>shlok =
        [2360, 2340, 2381, 2351, 2306, 32, 2332, 2381, 2334, 2366, 2344, 2350, 2344, 2344,
         2381, 2340, 2306, 32, 2348, 2381, 2352, 2361, 2381, 2350],
      meaning_hindi =
        [2360, 2340, 2381, 2351, 44, 32, 2332, 2381, 2334, 2366, 2344, 32, 2324, 2352, 32,
         2309, 2344, 2306, 2340, 32, 2361, 2368, 32, 2348, 2381, 2352, 2361, 2381, 2350, 32,
         2361, 2376, 2404],
      meaning_english =
        js ''Truth, knowledge, and infinity is Brahman.'',
      source = js ''Taittiriya Upanishad'',
      category = Some (js ''truth'')\<rparr>,
     \<lparr>shlok =
        [2357, 2360, 2369, 2343, 2376, 2357, 32, 2325, 2369, 2335, 2369, 2350, 2381, 2348,
         2325, 2350, 2381],
      meaning_hindi =
        [2346, 2370, 2352, 2368, 32, 2346, 2371, 2341, 2381, 2357, 2368, 32, 2361, 2368, 32,
         2319, 2325, 32, 2346, 2352, 2367, 2357, 2366, 2352, 32, 2361, 2376, 2404],
      meaning_english =
        js ''The whole world is one family.'',
      source = js ''Mahopanishad'',
      category = Some (js ''peace'')\<rparr>,
     \<lparr>shlok =
        [2358, 2366, 2344, 2381, 2340, 2367, 58, 32, 2358, 2366, 2344, 2381, 2340, 2367, 58,
         32, 2358, 2366, 2344, 2381, 2340, 2367, 58],
      meaning_hindi =
        [2358, 2366, 2306, 2340, 2367, 44, 32, 2358, 2366, 2306, 2340, 2367, 44, 32, 2358,
         2366, 2306, 2340, 2367, 2404],
      meaning_english =
        js ''Peace, peace, peace.'',
      source = js ''Upanishads'',
      category = Some (js ''peace'')\<rparr>,
     \<lparr>shlok =
        [2360, 2352, 2381, 2357, 2375, 32, 2349, 2357, 2344, 2381, 2340, 2369, 32, 2360,
         2369, 2326, 2367, 2344, 2307],
      meaning_hindi =
        [2360, 2349, 2368, 32, 2360, 2369, 2326, 2368, 32, 2361, 2379, 2306, 2404],
      meaning_english =
        js ''May all be happy.'',
      source = js ''Ancient Prayer'',
      category = Some (js ''peace'')\<rparr>,
     \<lparr>shlok =
        [2309, 2361, 2367, 2306, 2360, 2366, 32, 2346, 2352, 2350, 2379, 32, 2343, 2352,
         2381, 2350, 2307],
      meaning_hindi =
        [2309, 2361, 2367, 2306, 2360, 2366, 32, 2360, 2348, 2360, 2375, 32, 2348, 2337,
         2364, 2366, 32, 2343, 2352, 2381, 2350, 32, 2361, 2376, 2404],
      meaning_english =
        js ''Non-violence is the highest virtue and dharma.'',
      source = js ''Mahabharata'',
      category = Some (js ''dharma'')\<rparr>,
     \<lparr>shlok =
        [2343, 2352, 2381, 2350, 2379, 32, 2352, 2325, 2381, 2359, 2340, 2367, 32, 2352,
         2325, 2381, 2359, 2367, 2340, 2307],
      meaning_hindi =
        [2343, 2352, 2381, 2350, 32, 2325, 2368, 32, 2352, 2325, 2381, 2359, 2366, 32, 2325,
         2352, 2344, 2375, 32, 2357, 2366, 2354, 2375, 32, 2325, 2368, 32, 2352, 2325, 2381,
         2359, 2366, 32, 2343, 2352, 2381, 2350, 32, 2325, 2352, 2340, 2366, 32, 2361, 2376,
         2404],
      meaning_english =
        js ''Dharma protects those who protect dharma.'',
      source = js ''Mahabharata'',
      category = Some (js ''dharma'')\<rparr>,
     \<lparr>shlok =
        [2343, 2352, 2381, 2350, 32, 2319, 2357, 32, 2361, 2340, 2379, 32, 2361, 2344, 2381,
         2340, 2367, 32, 2343, 2352, 2381, 2350, 2379, 32, 2352, 2325, 2381, 2359, 2340,
         2367, 32, 2352, 2325, 2381, 2359, 2367, 2340, 2307],
      meaning_hindi =
        [2343, 2352, 2381, 2350, 32, 2325, 2366, 32, 2344, 2366, 2358, 32, 2325, 2352, 2344,
         2375, 32, 2357, 2366, 2354, 2375, 32, 2325, 2366, 32, 2344, 2366, 2358, 32, 2343,
         2352, 2381, 2350, 32, 2325, 2352, 2340, 2366, 32, 2361, 2376, 44, 32, 2343, 2352,
         2381, 2350, 32, 2325, 2368, 32, 2352, 2325, 2381, 2359, 2366, 32, 2325, 2352, 2344,
         2375, 32, 2357, 2366, 2354, 2375, 32, 2325, 2368, 32, 2352, 2325, 2381, 2359, 2366,
         32, 2343, 2352, 2381, 2350, 32, 2325, 2352, 2340, 2366, 32, 2361, 2376, 2404],
      meaning_english =
        js ''Dharma destroys those who destroy dharma, dharma protects those who protect dharma.'',
      source = js ''Mahabharata'',
      category = Some (js ''dharma'')\<rparr>,
     \<lparr>shlok =
        [2332, 2381, 2334, 2366, 2344, 2306, 32, 2357, 2376, 2352, 2366, 2327, 2381, 2351,
         2306, 32, 2330, 32, 2360, 2366, 32, 2357, 2367, 2342, 2381, 2351, 2366],
      meaning_hindi =
        [2332, 2381, 2334, 2366, 2344, 32, 2324, 2352, 32, 2357, 2376, 2352, 2366, 2327,
         2381, 2351, 32, 2361, 2368, 32, 2357, 2366, 2360, 2381, 2340, 2357, 2367, 2325, 32,
         2357, 2367, 2342, 2381, 2351, 2366, 32, 2361, 2376, 2404],
      meaning_english =
        js ''Knowledge and detachment together constitute true wisdom.'',
      source = js ''Bhagavad Gita'',
      category = Some (js ''wisdom'')\<rparr>,
     \<lparr>shlok =
        [2357, 2367, 2342, 2381, 2351, 2366, 32, 2342, 2342, 2366, 2340, 2367, 32, 2357,
         2367, 2344, 2351, 2306],
      meaning_hindi =
        [2357, 2367, 2342, 2381, 2351, 2366, 32, 2357, 2367, 2344, 2351, 32, 2342, 2375,
         2340, 2368, 32, 2361, 2376, 2404],
      meaning_english =
        js ''Knowledge gives humility.'',
      source = js ''Ancient Wisdom'',
      category = Some (js ''wisdom'')\<rparr>,
     \<lparr>shlok =
        [2332, 2381, 2334, 2366, 2344, 2375, 2344, 32, 2340, 2369, 32, 2340, 2342, 2332,
         2381, 2334, 2366, 2344, 2306, 32, 2351, 2375, 2359, 2366, 2306, 32, 2344, 2366,
         2358, 2367, 2340, 2350, 2366, 2340, 2381, 2350, 2344, 2307],
      meaning_hindi =
        [2332, 2367, 2344, 2325, 2375, 32, 2309, 2332, 2381, 2334, 2366, 2344, 32, 2325,
         2366, 32, 2344, 2366, 2358, 32, 2310, 2340, 2381, 2350, 2366, 32, 2325, 2375, 32,
         2342, 2381, 2357, 2366, 2352, 2366, 32, 2332, 2381, 2334, 2366, 2344, 32, 2360,
         2375, 32, 2361, 2379, 32, 2327, 2351, 2366, 32, 2361, 2376, 2404],
      meaning_english =
        js ''Those whose ignorance has been destroyed by knowledge of the self.'',
      source = js ''Bhagavad Gita'',
      category = Some (js ''wisdom'')\<rparr>,
     \<lparr>shlok =
        [2349, 2325, 2381, 2340, 2367, 32, 2351, 2379, 2327, 2375, 2344, 32, 2340, 2379,
         2359, 2351, 2366, 2350, 2367],
      meaning_hindi =
        [2349, 2325, 2381, 2340, 2367, 32, 2351, 2379, 2327, 32, 2360, 2375, 32, 2350, 2376,
         2306, 32, 2346, 2381, 2352, 2360, 2344, 2381, 2344, 32, 2361, 2379, 2340, 2366, 32,
         2361, 2370, 2306, 2404],
      meaning_english =
        js ''I am pleased by the yoga of devotion.'',
      source = js ''Bhagavad Gita'',
      category = Some (js ''devotion'')\<rparr>,
     \<lparr>shlok =
        [2350, 2366, 2350, 2375, 2357, 32, 2351, 2375, 32, 2346, 2381, 2352, 2346, 2342,
         2381, 2351, 2344, 2381, 2340, 2375, 32, 2350, 2366, 2351, 2366, 2350, 2375, 2340,
         2366, 2306, 32, 2340, 2352, 2344, 2381, 2340, 2367, 32, 2340, 2375],
      meaning_hindi =
        [2332, 2379, 32, 2350, 2369, 2333, 2375, 32, 2361, 2368, 32, 2358, 2352, 2339, 32,
         2354, 2375, 2340, 2375, 32, 2361, 2376, 2306, 44, 32, 2357, 2375, 32, 2311, 2360,
         32, 2350, 2366, 2351, 2366, 32, 2325, 2379, 32, 2346, 2366, 2352, 32, 2325, 2352,
         32, 2332, 2366, 2340, 2375, 32, 2361, 2376, 2306, 2404],
      meaning_english =
        js ''Those who take refuge in me alone cross over this illusion.'',
      source = js ''Bhagavad Gita'',
      category = Some (js ''devotion'')\<rparr>,
     \<lparr>shlok =
        [2360, 2352, 2381, 2357, 2343, 2352, 2381, 2350, 2366, 2344, 2381, 2346, 2352, 2367,
         2340, 2381, 2351, 2332, 2381, 2351, 32, 2350, 2366, 2350, 2375, 2325, 2306, 32,
         2358, 2352, 2339, 2306, 32, 2357, 2381, 2352, 2332],
      meaning_hindi =
        [2360, 2349, 2368, 32, 2343, 2352, 2381, 2350, 2379, 2306, 32, 2325, 2379, 32, 2340,
         2381, 2351, 2366, 2327, 32, 2325, 2352, 32, 2350, 2369, 2333, 2375, 32, 2361, 2368,
         32, 2319, 2325, 32, 2358, 2352, 2339, 32, 2350, 2375, 2306, 32, 2310, 32, 2332,
         2366, 2323, 2404],
      meaning_english =
        js ''Abandoning all dharmas, take refuge in me alone.'',
      source = js ''Bhagavad Gita'',
      category = Some (js ''devotion'')\<rparr>,
     \<lparr>shlok =
        [2343, 2381, 2351, 2366, 2344, 2366, 2340, 2381, 32, 2325, 2352, 2381, 2350, 32,
         2347, 2354, 32, 2340, 2381, 2351, 2366, 2327, 2307],
      meaning_hindi =
        [2343, 2381, 2351, 2366, 2344, 32, 2360, 2375, 32, 2325, 2352, 2381, 2350, 32, 2347,
         2354, 32, 2325, 2366, 32, 2340, 2381, 2351, 2366, 2327, 32, 2361, 2379, 2340, 2366,
         32, 2361, 2376, 2404],
      meaning_english =
        js ''Through meditation, one renounces the fruits of action.'',
      source = js ''Yoga Sutras'',
      category = Some (js ''meditation'')\<rparr>,
     \<lparr>shlok =
        [2343, 2381, 2351, 2366, 2351, 2340, 2379, 32, 2357, 2367, 2359, 2351, 2366, 2344,
         2381, 2346, 2369, 2306, 2360, 2307, 32, 2360, 2329, 2381, 2327, 2360, 2381, 2340,
         2375, 2359, 2370, 2346, 2332, 2366, 2351, 2340, 2375],
      meaning_hindi =
        [2357, 2367, 2359, 2351, 2379, 2306, 32, 2325, 2366, 32, 2343, 2381, 2351, 2366,
         2344, 32, 2325, 2352, 2344, 2375, 32, 2360, 2375, 32, 2313, 2344, 2350, 2375, 2306,
         32, 2310, 2360, 2325, 2381, 2340, 2367, 32, 2361, 2379, 32, 2332, 2366, 2340, 2368,
         32, 2361, 2376, 2404],
      meaning_english =
        js ''By meditating on sense objects, attachment to them arises.'',
      source = js ''Bhagavad Gita'',
      category = Some (js ''meditation'')\<rparr>,
     \<lparr>shlok =
        [2343, 2381, 2351, 2366, 2344, 2375, 2344, 2366, 2340, 2381, 2350, 2344, 2367, 32,
         2346, 2358, 2381, 2351, 2344, 2381, 2340, 2367, 32, 2325, 2375, 2330, 2367, 2342,
         2366, 2340, 2381, 2350, 2366, 2344, 2350, 2366, 2340, 2381, 2350, 2344, 2366],
      meaning_hindi =
        [2325, 2369, 2331, 32, 2354, 2379, 2327, 32, 2343, 2381, 2351, 2366, 2344, 32, 2360,
         2375, 32, 2310, 2340, 2381, 2350, 2366, 32, 2325, 2379, 32, 2310, 2340, 2381, 2350,
         2366, 32, 2360, 2375, 32, 2342, 2375, 2326, 2340, 2375, 32, 2361, 2376, 2306, 2404],
      meaning_english =
        js ''Some see the self by the self through meditation.'',
      source = js ''Bhagavad Gita'',
      category = Some (js ''meditation'')\<rparr>]"

text \<open>
  \<open>getFallbackQuote\<close>, in three steps: \<open>pickFallbackQuote\<close> is the choice of the table entry
  from the category, the recent shloks and the random draw; \<open>selectFallbackQuote\<close> obtains
  these three; \<open>getFallbackQuote\<close> returns a copy of the chosen entry with the category
  replaced.
\<close>

definition pickFallbackQuote :: "jsstring \<Rightarrow> jsstring list \<Rightarrow> nat \<Rightarrow> AIGeneratedQuote" where
  "pickFallbackQuote category' recentQuotes m =
     (let availableQuotes =
            filter_arr (\<lambda>quote.
                \<not> some (\<lambda>recent.
                      js_includes (toLowerCase recent) (toLowerCase (shlok quote)) \<or>
                      js_includes (toLowerCase (shlok quote)) (toLowerCase recent))
                    recentQuotes)
              fallbackQuotes;
          categoryQuotes =
            filter_arr (\<lambda>quote. category quote = Some category') availableQuotes;
          quotesToUse =
            (if length categoryQuotes > 0 then categoryQuotes else availableQuotes);
          finalQuotes = (if length quotesToUse > 0 then quotesToUse else fallbackQuotes);
          randomIndex = floor_random m (length finalQuotes)
      in finalQuotes ! randomIndex)"

definition selectFallbackQuote :: "env \<Rightarrow> state \<Rightarrow> (AIGeneratedQuote \<times> jsstring) \<times> state" where
  "selectFallbackQuote e s =
     (case getLeastUsedCategory e s of
        (category', s1) \<Rightarrow>
          (case getRecentlyUsedQuotes e s1 20 of
             (recentQuotes, s2) \<Rightarrow>
               (case Math_random e s2 of
                  (m, s3) \<Rightarrow> ((pickFallbackQuote category' recentQuotes m, category'), s3))))"

definition getFallbackQuote :: "env \<Rightarrow> state \<Rightarrow> AIGeneratedQuote \<times> state" where
  "getFallbackQuote e s =
     (case selectFallbackQuote e s of
        ((selectedQuote, category'), s1) \<Rightarrow> (selectedQuote\<lparr>category := Some category'\<rparr>, s1))"

section \<open>Generation (\<open>aiService.ts\<close>)\<close>

definition system_first :: jsstring where
  "system_first =
     js ''You are a knowledgeable expert in Indian scriptures and Sanskrit literature. '' @
     js ''Generate authentic, meaningful, and completely unique quotes from ancient texts. '' @
     js ''The database has a unique constraint on shloks - never generate duplicate shloks. '' @
     js ''Always respond with valid JSON only, no explanations or extra text.''"

definition system_retry :: jsstring where
  "system_retry =
     js ''You are a Sanskrit scholar. Generate a completely unique shlok from Indian '' @
     js ''scriptures. Focus on lesser-known verses and ensure complete uniqueness. '' @
     js ''Respond ONLY with valid JSON.''"

text \<open>
  One call of \<open>openai.chat.completions.create\<close>: the request is logged and the
  environment's next reply is returned.
\<close>

definition create_completion :: "env \<Rightarrow> state \<Rightarrow> ai_request \<Rightarrow> ai_reply \<times> state" where
  "create_completion e s request =
     (completion e (length (ai_requests s)), s\<lparr>ai_requests := ai_requests s @ [request]\<rparr>)"

text \<open>
  \<open>generateQuoteWithAIRetry\<close>.  Every throw inside its \<open>try\<close> block (no API key, a failed
  call, no content, a parse failure) ends in \<open>getFallbackQuote\<close>.
\<close>

definition generateQuoteWithAIRetry :: "env \<Rightarrow> state \<Rightarrow> AIGeneratedQuote \<times> state" where
  "generateQuoteWithAIRetry e s =
     (if \<not> api_key e then getFallbackQuote e s
      else
        (case getLeastUsedCategory e s of
           (category', s1) \<Rightarrow>
             (case create_completion e s1
                     \<lparr>system_content = system_retry, user_content = RetryPrompt category',
                      max_tokens = 500, temperature10 = 10\<rparr> of
                (Api_error x, s2) \<Rightarrow> getFallbackQuote e s2
              | (Content None, s2) \<Rightarrow> getFallbackQuote e s2
              | (Content (Some response), s2) \<Rightarrow>
                  (if response = [] then getFallbackQuote e s2
                   else
                     (case parseAIResponse response of
                        Inl x \<Rightarrow> getFallbackQuote e s2
                      | Inr parsedQuote \<Rightarrow>
                          (case checkQuoteUniqueness e s2 (shlok parsedQuote) of
                             (isUnique, s3) \<Rightarrow>
                               if \<not> isUnique then getFallbackQuote e s3
                               else (parsedQuote, s3)))))))"

text \<open>
  \<open>generateQuoteWithAI\<close>.  The prompt is built (\<open>getQuoteGenerationPrompt\<close>: least used
  category, latest 15 shloks) before the call is made.  \<open>n_generate\<close> counts the
  invocations.
\<close>

definition generateQuoteWithAI :: "env \<Rightarrow> state \<Rightarrow> AIGeneratedQuote \<times> state" where
  "generateQuoteWithAI e s =
     (let s0 = s\<lparr>n_generate := n_generate s + 1\<rparr> in
      if \<not> api_key e then getFallbackQuote e s0
      else
        (case getLeastUsedCategory e s0 of
           (category', s1) \<Rightarrow>
             (case getRecentlyUsedQuotes e s1 15 of
                (recentQuotes, s2) \<Rightarrow>
                  (case create_completion e s2
                          \<lparr>system_content = system_first,
                           user_content = QuoteGenerationPrompt category' recentQuotes,
                           max_tokens = 500, temperature10 = 9\<rparr> of
                     (Api_error x, s3) \<Rightarrow> getFallbackQuote e s3
                   | (Content None, s3) \<Rightarrow> getFallbackQuote e s3
                   | (Content (Some response), s3) \<Rightarrow>
                       (if response = [] then getFallbackQuote e s3
                        else
                          (case parseAIResponse response of
                             Inl x \<Rightarrow> getFallbackQuote e s3
                           | Inr parsedQuote \<Rightarrow>
                               (case checkQuoteUniqueness e s3 (shlok parsedQuote) of
                                  (isUnique, s4) \<Rightarrow>
                                    if \<not> isUnique then generateQuoteWithAIRetry e s4
                                    else (parsedQuote, s4))))))))"

section \<open>Publication (\<open>quoteService.ts\<close>)\<close>

text \<open>
  \<open>get6AMISTTimestamp\<close>: the three parts of the date string are read as numbers, and a
  part that is missing, zero or not a number is refused.  The parts are read as decimal
  digit strings, which is what \<open>Number\<close> does on the parts of a \<open>YYYY-MM-DD\<close> string.  The
  \<open>Date\<close> arithmetic that follows (local-time construction, minus five and a half hours,
  \<open>toISOString\<close>) is the environment's \<open>sixAM_instant\<close>.
\<close>

fun split_on :: "nat \<Rightarrow> jsstring \<Rightarrow> jsstring \<Rightarrow> jsstring list" where
  "split_on sep acc [] = [rev acc]"
| "split_on sep acc (c # s) =
     (if c = sep then rev acc # split_on sep [] s else split_on sep (c # acc) s)"

fun digits_value :: "nat \<Rightarrow> jsstring \<Rightarrow> nat option" where
  "digits_value v [] = Some v"
| "digits_value v (c # s) = (if is_digit c then digits_value (v * 10 + (c - 48)) s else None)"

definition get6AMISTTimestamp :: "env \<Rightarrow> jsstring \<Rightarrow> js_error + jsstring" where
  "get6AMISTTimestamp e dateString =
     (case map (digits_value 0) (split_on 45 [] dateString) of
        Some year # Some month # Some day # rest \<Rightarrow>
          if year = 0 \<or> month = 0 \<or> day = 0
          then Inl (Error (js ''Invalid date format. Expected YYYY-MM-DD''))
          else Inr (sixAM_instant e year month day)
      | _ \<Rightarrow> Inl (Error (js ''Invalid date format. Expected YYYY-MM-DD'')))"

definition logQuoteForToday ::
  "env \<Rightarrow> state \<Rightarrow> uuid \<Rightarrow> jsstring \<Rightarrow> (js_error + unit) \<times> state" where
  "logQuoteForToday e s quoteId timestamp =
     (if today e = [] then (Inl (Error (js ''Failed to get today'' @ [39] @ js ''s date'')), s)
      else
        (case (if timestamp \<noteq> [] then Inr timestamp else get6AMISTTimestamp e (today e)) of
           Inl x \<Rightarrow> (Inl x, s)
         | Inr logTimestamp \<Rightarrow>
             (case upsert_daily_log e s quoteId (today e) logTimestamp of
                (Inl x, s1) \<Rightarrow> (Inl x, s1)
              | (Inr (Some error'), s1) \<Rightarrow> (Inl error', s1)
              | (Inr None, s1) \<Rightarrow> (Inr (), s1))))"

text \<open>
  The \<open>try\<close>/\<open>catch\<close> around \<open>logQuoteForToday\<close>, which \<open>generateAndStoreQuote\<close> has twice
  with the same text (for the first inserted row and for the row of the retry): link the
  row to today; on a duplicate error fetch today's quote and, if there is one, delete the
  row and return the fetched quote; otherwise rethrow.  The result of the delete request
  is not looked at.
\<close>

definition logOrReturnExisting ::
  "env \<Rightarrow> state \<Rightarrow> Quote \<Rightarrow> jsstring \<Rightarrow> (js_error + Quote) \<times> state" where
  "logOrReturnExisting e s newQuote sixAMIST =
     (case logQuoteForToday e s (id' newQuote) sixAMIST of
        (Inr u, s1) \<Rightarrow> (Inr newQuote, s1)
      | (Inl logError, s1) \<Rightarrow>
          if js_includes (message logError) (js ''duplicate'') \<or>
             code logError = Some (js ''23505'')
          then
            (case getTodayQuote e s1 of
               (Inl x, s2) \<Rightarrow> (Inl x, s2)
             | (Inr None, s2) \<Rightarrow> (Inl logError, s2)
             | (Inr (Some existingQuote), s2) \<Rightarrow>
                 (case delete_quote e s2 (id' newQuote) of
                    (Inl x, s3) \<Rightarrow> (Inl x, s3)
                  | (Inr r, s3) \<Rightarrow> (Inr existingQuote, s3)))
          else (Inl logError, s1))"

text \<open>\<open>generateAndStoreQuote\<close>.\<close>

definition generateAndStoreQuote :: "env \<Rightarrow> state \<Rightarrow> (js_error + Quote) \<times> state" where
  "generateAndStoreQuote e s =
     (if today e = [] then (Inl (Error (js ''Failed to get today'' @ [39] @ js ''s date'')), s)
      else
        (case getTodayQuote e s of
           (Inl x, s1) \<Rightarrow> (Inl x, s1)
         | (Inr (Some todayQuote), s1) \<Rightarrow> (Inr todayQuote, s1)
         | (Inr None, s1) \<Rightarrow>
             (case generateQuoteWithAI e s1 of
                (aiQuote, s2) \<Rightarrow>
                  (case get6AMISTTimestamp e (today e) of
                     Inl x \<Rightarrow> (Inl x, s2)
                   | Inr sixAMIST \<Rightarrow>
                       (case insert_quote e s2 aiQuote sixAMIST of
                          (Inl x, s3) \<Rightarrow> (Inl x, s3)
                        | (Inr (Response newQuote (Some insertError)), s3) \<Rightarrow>
                            if code insertError = Some (js ''23505'') \<and>
                               js_includes (message insertError) (js ''unique_shlok'')
                            then
                              (case generateQuoteWithAI e s3 of
                                 (newAiQuote, s4) \<Rightarrow>
                                   (case insert_quote e s4 newAiQuote sixAMIST of
                                      (Inl x, s5) \<Rightarrow> (Inl x, s5)
                                    | (Inr (Response retryQuote (Some retryError)), s5) \<Rightarrow>
                                        (Inl (Error (js ''Failed to insert quote after retry: '' @
                                                     message retryError)), s5)
                                    | (Inr (Response None None), s5) \<Rightarrow>
                                        (Inl (Error (js ''Cannot read properties of null'')), s5)
                                    | (Inr (Response (Some retryQuote) None), s5) \<Rightarrow>
                                        logOrReturnExisting e s5 retryQuote sixAMIST))
                            else (Inl (Error (js ''Failed to insert quote: '' @
                                              message insertError)), s3)
                        | (Inr (Response None None), s3) \<Rightarrow>
                            (Inl (Error (js ''Failed to insert quote: No data returned'')), s3)
                        | (Inr (Response (Some newQuote) None), s3) \<Rightarrow>
                            logOrReturnExisting e s3 newQuote sixAMIST)))))"

section \<open>Example environments and states\<close>

text \<open>
  Concrete inputs for the examples below: a day on which every store request succeeds
  and the completion capability fails, and the empty store.
\<close>

definition example_env :: env where
  "example_env =
     \<lparr>today = js ''2025-06-01'', api_key = True,
      completion = (\<lambda>n. Api_error (Error (js ''timeout''))),
      random = (\<lambda>n. 0),
      select_fault = (\<lambda>n. Succeeds), insert_fault = (\<lambda>n. Succeeds),
      upsert_fault = (\<lambda>n. Succeeds), delete_fault = (\<lambda>n. Succeeds),
      sixAM_instant = (\<lambda>y m d. js ''2025-06-01T00:30:00.000Z'')\<rparr>"

definition empty_state :: state where
  "empty_state =
     \<lparr>quotes = [], daily_logs = [], next_uuid = 0, n_select = 0, n_insert = 0,
      n_upsert = 0, n_delete = 0, n_random = 0, n_generate = 0, ai_requests = []\<rparr>"

text \<open>A store with one publication, of the given shlok, on the given date.\<close>

definition one_publication :: "jsstring \<Rightarrow> jsstring \<Rightarrow> state" where
  "one_publication text' d =
     empty_state
       \<lparr>quotes := [\<lparr>shlok = text', meaning_hindi = js ''h'', meaning_english = js ''e'',
                     source = js ''s'', category = None, id' = 0,
                     created_at = js ''2025-05-31T00:30:00.000Z''\<rparr>],
        daily_logs := [\<lparr>log_id = 1, quote_id = 0, date = d,
                         log_created_at = js ''2025-05-31T00:30:00.000Z''\<rparr>],
        next_uuid := 2\<rparr>"

text \<open>
  A store in which the three karma entries of the fallback table were published on the
  last three days, with no category recorded.
\<close>

definition karma_used_state :: state where
  "karma_used_state =
     empty_state
       \<lparr>quotes :=
          map (\<lambda>i. \<lparr>shlok = shlok (fallbackQuotes ! i), meaning_hindi = js ''h'',
                      meaning_english = js ''e'', source = js ''s'', category = None,
                      id' = i, created_at = js ''t''\<rparr>) [0, 1, 2],
        daily_logs :=
          [\<lparr>log_id = 3, quote_id = 0, date = js ''2025-05-29'', log_created_at = js ''t''\<rparr>,
           \<lparr>log_id = 4, quote_id = 1, date = js ''2025-05-30'', log_created_at = js ''t''\<rparr>,
           \<lparr>log_id = 5, quote_id = 2, date = js ''2025-05-31'', log_created_at = js ''t''\<rparr>],
        next_uuid := 6\<rparr>"




definition blank_meaning_response :: jsstring where
  "blank_meaning_response =
     js ''{\"shlok\":\"x\",\"meaning_hindi\":\" \",\"meaning_english\":\"e\",\"source\":\"s\"}''"

text \<open>A structured response whose shlok is \<open>abcd\<close>.\<close>

definition abcd_response :: jsstring where
  "abcd_response =
     js ''{\"shlok\":\"abcd\",\"meaning_hindi\":\"h\",\"meaning_english\":\"e\",\"source\":\"s\"}''"

text \<open>The store refuses every insert with a violation of \<open>unique_shlok\<close>.\<close>

definition unique_shlok_error :: js_error where
  "unique_shlok_error =
     \<lparr>code = Some (js ''23505''),
      message = js ''duplicate key value violates unique constraint unique_shlok''\<rparr>"

definition unique_shlok_env :: env where
  "unique_shlok_env = example_env\<lparr>insert_fault := (\<lambda>n. Returns_error unique_shlok_error)\<rparr>"


section \<open>Auxiliary notions\<close>

text \<open>
  What a read yields under the environment's verdict: the rows when the request succeeds,
  nothing when it fails or throws.
\<close>

definition fetched :: "fault \<Rightarrow> 'a list \<Rightarrow> 'a list" where
  "fetched f rows = (case f of Succeeds \<Rightarrow> rows | Returns_error x \<Rightarrow> [] | Throws x \<Rightarrow> [])"

definition fetched_counts :: "fault \<Rightarrow> (jsstring \<rightharpoonup> nat) \<Rightarrow> (jsstring \<rightharpoonup> nat)" where
  "fetched_counts f counts =
     (case f of Succeeds \<Rightarrow> counts | Returns_error x \<Rightarrow> Map.empty | Throws x \<Rightarrow> Map.empty)"

text \<open>
  The completion requests made between two states, and what the retry bound says about a
  request: its system instruction and its temperature.
\<close>

definition new_requests :: "state \<Rightarrow> state \<Rightarrow> ai_request list" where
  "new_requests s s' = drop (length (ai_requests s)) (ai_requests s')"

definition request_profile :: "ai_request \<Rightarrow> jsstring \<times> nat" where
  "request_profile r = (system_content r, temperature10 r)"

text \<open>A step that writes nothing: the tables and the write counters are as before.\<close>

definition writes_nothing :: "state \<Rightarrow> state \<Rightarrow> bool" where
  "writes_nothing s s' =
     (quotes s' = quotes s \<and> daily_logs s' = daily_logs s \<and> next_uuid s' = next_uuid s \<and>
      n_insert s' = n_insert s \<and> n_upsert s' = n_upsert s \<and> n_delete s' = n_delete s)"

text \<open>
  The replacement record that \<open>generateAndStoreQuote\<close> generates after its first insert
  has failed: the second invocation of the generator, in the state the failed insert left.
\<close>

definition replacement :: "env \<Rightarrow> state \<Rightarrow> jsstring \<Rightarrow> AIGeneratedQuote \<times> state" where
  "replacement e s sixAMIST =
     (case generateQuoteWithAI e (snd (getTodayQuote e s)) of
        (aiQuote, s2) \<Rightarrow> generateQuoteWithAI e (snd (insert_quote e s2 aiQuote sixAMIST)))"


section \<open>The specification's words\<close>


section \<open>Facts about the string primitives\<close>




lemma filter_arr_eq: "filter_arr p xs = filter p xs"
  by (induction xs) auto


section \<open>The uniqueness checker\<close>




section \<open>What the read-only functions do to the state\<close>

lemma snd_getRecentlyUsedQuotes [simp]:
  "snd (getRecentlyUsedQuotes e s limit) = s\<lparr>n_select := n_select s + 1\<rparr>"
  by (cases "select_fault e (n_select s)")
     (simp_all add: getRecentlyUsedQuotes_def select_request_def)

lemma snd_getQuoteUsageStats [simp]:
  "snd (getQuoteUsageStats e s) = s\<lparr>n_select := n_select s + 1\<rparr>"
  by (cases "select_fault e (n_select s)")
     (simp_all add: getQuoteUsageStats_def select_request_def Let_def)

lemma snd_getLeastUsedCategory [simp]:
  "snd (getLeastUsedCategory e s) = s\<lparr>n_select := n_select s + 1\<rparr>"
  by (simp add: getLeastUsedCategory_def case_prod_beta Let_def)

lemma snd_checkQuoteUniqueness [simp]:
  "snd (checkQuoteUniqueness e s c) = s\<lparr>n_select := n_select s + 1\<rparr>"
  by (simp add: checkQuoteUniqueness_def case_prod_beta)

lemma snd_selectFallbackQuote [simp]:
  "snd (selectFallbackQuote e s) =
     s\<lparr>n_select := n_select s + 2, n_random := n_random s + 1\<rparr>"
  by (simp add: selectFallbackQuote_def case_prod_beta Math_random_def)

lemma snd_getFallbackQuote [simp]:
  "snd (getFallbackQuote e s) =
     s\<lparr>n_select := n_select s + 2, n_random := n_random s + 1\<rparr>"
  by (simp add: getFallbackQuote_def case_prod_beta)

text \<open>The answers, as functions of the tables and of the environment's verdicts.\<close>

lemma fst_getRecentlyUsedQuotes:
  "fst (getRecentlyUsedQuotes e s limit) =
     fetched (select_fault e (n_select s)) (recent_shloks (quotes s) (daily_logs s) limit)"
  by (cases "select_fault e (n_select s)")
     (simp_all add: getRecentlyUsedQuotes_def select_request_def fetched_def)

lemma fst_getLeastUsedCategory:
  "fst (getLeastUsedCategory e s) =
     leastUsedOf
       (fetched_counts (select_fault e (n_select s))
          (count_categories (quotes s) (take 100 (order_by_date_desc (daily_logs s)))
             Map.empty))"
  by (cases "select_fault e (n_select s)")
     (simp_all add: getLeastUsedCategory_def getQuoteUsageStats_def select_request_def Let_def
        fetched_counts_def)

lemma fst_checkQuoteUniqueness:
  "fst (checkQuoteUniqueness e s c) =
     isUniqueAmong
       (fetched (select_fault e (n_select s)) (recent_shloks (quotes s) (daily_logs s) 30)) c"
  by (simp add: checkQuoteUniqueness_def case_prod_beta fst_getRecentlyUsedQuotes)

lemma getRecentlyUsedQuotes_ok:
  "select_fault e (n_select s) = Succeeds \<Longrightarrow>
   fst (getRecentlyUsedQuotes e s limit) = recent_shloks (quotes s) (daily_logs s) limit"
  by (simp add: fst_getRecentlyUsedQuotes fetched_def)

lemma floor_random_less: "0 < n \<Longrightarrow> floor_random m n < n"
proof -
  assume n: "0 < n"
  have "m mod 2 ^ 53 < (2::nat) ^ 53" by simp
  then have "(m mod 2 ^ 53) * n < n * 2 ^ 53"
    using n by (simp add: mult.commute)
  then show ?thesis
    unfolding floor_random_def by (rule less_mult_imp_div_less)
qed

lemma fst_getFallbackQuote:
  "fst (getFallbackQuote e s) =
     (pickFallbackQuote (fst (getLeastUsedCategory e s))
        (fetched (select_fault e (n_select s + 1))
           (recent_shloks (quotes s) (daily_logs s) 20))
        (random e (n_random s)))
     \<lparr>category := Some (fst (getLeastUsedCategory e s))\<rparr>"
  by (simp add: getFallbackQuote_def selectFallbackQuote_def case_prod_beta Math_random_def
      fst_getRecentlyUsedQuotes)

lemmas fst_answers =
  fst_getRecentlyUsedQuotes fst_getLeastUsedCategory fst_checkQuoteUniqueness
  fst_getFallbackQuote

section \<open>The category balancer\<close>

lemma getLeastUsedCategory_failed:
  "select_fault e (n_select s) \<noteq> Succeeds \<Longrightarrow> fst (getLeastUsedCategory e s) = js ''karma''"
  by (cases "select_fault e (n_select s)")
     (simp_all add: fst_getLeastUsedCategory fetched_counts_def leastUsedOf_def
        QUOTE_CATEGORIES_def count_of_def)

text \<open>
  C7, at a failing fetch.  The history fetch fails and the next random draw is one half,
  for which \<open>getRandomCategory\<close> gives \<open>yoga\<close>; \<open>getLeastUsedCategory\<close> gives \<open>karma\<close>, the
  first category, as it does at every failing fetch (lemma \<open>getLeastUsedCategory_failed\<close>):
  the random fallback of its \<open>catch\<close> is never reached.
\<close>

theorem getLeastUsedCategory_fetch_failure:
  "fst (getLeastUsedCategory
          (example_env\<lparr>select_fault := (\<lambda>n. Returns_error (Error (js ''down''))),
                        random := (\<lambda>n. 2 ^ 52)\<rparr>) empty_state) = js ''karma'' \<and>
   fst (getRandomCategory
          (example_env\<lparr>select_fault := (\<lambda>n. Returns_error (Error (js ''down''))),
                        random := (\<lambda>n. 2 ^ 52)\<rparr>) empty_state) = js ''yoga''"
proof
  show "fst (getLeastUsedCategory
          (example_env\<lparr>select_fault := (\<lambda>n. Returns_error (Error (js ''down''))),
                        random := (\<lambda>n. 2 ^ 52)\<rparr>) empty_state) = js ''karma''"
    by (rule getLeastUsedCategory_failed) simp
next
  show "fst (getRandomCategory
          (example_env\<lparr>select_fault := (\<lambda>n. Returns_error (Error (js ''down''))),
                        random := (\<lambda>n. 2 ^ 52)\<rparr>) empty_state) = js ''yoga''"
    by (simp add: getRandomCategory_def Math_random_def floor_random_def QUOTE_CATEGORIES_def)
qed

section \<open>The fallback table path\<close>

lemma fallbackQuotes_length: "length fallbackQuotes = 24"
  by (simp add: fallbackQuotes_def)

lemma fst_selectFallbackQuote:
  "fst (selectFallbackQuote e s) =
     (pickFallbackQuote (fst (getLeastUsedCategory e s))
        (fst (getRecentlyUsedQuotes e (s\<lparr>n_select := n_select s + 1\<rparr>) 20))
        (random e (n_random s)),
      fst (getLeastUsedCategory e s))"
  by (simp add: selectFallbackQuote_def case_prod_beta Math_random_def)

lemma selectFallbackQuote_category:
  "snd (fst (selectFallbackQuote e s)) = fst (getLeastUsedCategory e s)"
  by (simp add: fst_selectFallbackQuote)

lemma pickFallbackQuote_in_table: "pickFallbackQuote c recentQuotes m \<in> set fallbackQuotes"
proof -
  define availableQuotes where
    "availableQuotes =
       filter_arr (\<lambda>quote.
           \<not> some (\<lambda>recent.
                 js_includes (toLowerCase recent) (toLowerCase (shlok quote)) \<or>
                 js_includes (toLowerCase (shlok quote)) (toLowerCase recent))
               recentQuotes)
         fallbackQuotes"
  define categoryQuotes where
    "categoryQuotes = filter_arr (\<lambda>quote. category quote = Some c) availableQuotes"
  define quotesToUse where
    "quotesToUse = (if length categoryQuotes > 0 then categoryQuotes else availableQuotes)"
  define finalQuotes where
    "finalQuotes = (if length quotesToUse > 0 then quotesToUse else fallbackQuotes)"
  have sel: "pickFallbackQuote c recentQuotes m =
               finalQuotes ! floor_random m (length finalQuotes)"
    unfolding pickFallbackQuote_def Let_def finalQuotes_def quotesToUse_def
      categoryQuotes_def availableQuotes_def ..
  have sub: "set finalQuotes \<subseteq> set fallbackQuotes"
    by (auto simp: finalQuotes_def quotesToUse_def categoryQuotes_def availableQuotes_def
        filter_arr_eq)
  have "fallbackQuotes \<noteq> []"
    using fallbackQuotes_length by auto
  then have "0 < length finalQuotes"
    by (simp add: finalQuotes_def)
  then have "floor_random m (length finalQuotes) < length finalQuotes"
    by (rule floor_random_less)
  then have "finalQuotes ! floor_random m (length finalQuotes) \<in> set finalQuotes"
    by (rule nth_mem)
  with sub sel show ?thesis by auto
qed

lemma selectFallbackQuote_in_table:
  "fst (fst (selectFallbackQuote e s)) \<in> set fallbackQuotes"
  by (simp add: fst_selectFallbackQuote pickFallbackQuote_in_table)

text \<open>The three karma entries were used: a yoga entry is chosen while karma is least used.\<close>

lemma karma_used_least: "fst (getLeastUsedCategory example_env karma_used_state) = js ''karma''"
  by (simp add: fst_getLeastUsedCategory fetched_counts_def leastUsedOf_def
      QUOTE_CATEGORIES_def count_of_def example_env_def karma_used_state_def empty_state_def
      order_by_date_desc_def quote_of_def)

lemma karma_used_recent:
  "recent_shloks (quotes karma_used_state) (daily_logs karma_used_state) 20 =
     [shlok (fallbackQuotes ! 2), shlok (fallbackQuotes ! 1), shlok (fallbackQuotes ! 0)]"
  by (simp add: recent_shloks_def karma_used_state_def empty_state_def order_by_date_desc_def
      quote_of_def fallbackQuotes_def)

lemma karma_used_available:
  "filter_arr (\<lambda>quote.
       \<not> some (\<lambda>recent.
             js_includes (toLowerCase recent) (toLowerCase (shlok quote)) \<or>
             js_includes (toLowerCase (shlok quote)) (toLowerCase recent))
           [shlok (fallbackQuotes ! 2), shlok (fallbackQuotes ! 1), shlok (fallbackQuotes ! 0)])
     fallbackQuotes = drop 3 fallbackQuotes"
  by (simp add: fallbackQuotes_def toLowerCase_def lowerUnit_def)

lemma no_karma_left:
  "filter_arr (\<lambda>quote. category quote = Some (js ''karma'')) (drop 3 fallbackQuotes) = []"
  by (simp add: fallbackQuotes_def)

lemma karma_used_pick:
  "pickFallbackQuote (js ''karma'')
     [shlok (fallbackQuotes ! 2), shlok (fallbackQuotes ! 1), shlok (fallbackQuotes ! 0)] 0 =
   fallbackQuotes ! 3"
  apply (simp only: pickFallbackQuote_def Let_def karma_used_available no_karma_left)
  apply (simp add: floor_random_def fallbackQuotes_length)
  done

lemma karma_used_selected:
  "fst (selectFallbackQuote example_env karma_used_state) = (fallbackQuotes ! 3, js ''karma'')"
proof -
  have ok: "select_fault example_env k = Succeeds" for k
    by (simp add: example_env_def)
  have rnd: "random example_env k = 0" for k
    by (simp add: example_env_def)
  show ?thesis
    by (simp add: fst_selectFallbackQuote karma_used_least getRecentlyUsedQuotes_ok ok
        karma_used_recent rnd karma_used_pick [simplified])
qed

lemma yoga_entry: "category (fallbackQuotes ! 3) = Some (js ''yoga'')"
  by (simp add: fallbackQuotes_def)

text \<open>
  C10.  The record \<open>getFallbackQuote\<close> returns is the chosen entry of the table with its
  category replaced by the balancer's least used category; and there are stores in which
  that category is not the one the chosen entry is curated under.
\<close>

theorem getFallbackQuote_category_overwritten:
  "fst (getFallbackQuote e s) =
     (fst (fst (selectFallbackQuote e s)))\<lparr>category := Some (fst (getLeastUsedCategory e s))\<rparr> \<and>
   fst (fst (selectFallbackQuote e s)) \<in> set fallbackQuotes \<and>
   (\<exists>e' s'. category (fst (fst (selectFallbackQuote e' s'))) \<noteq>
              Some (fst (getLeastUsedCategory e' s')))"
proof (intro conjI)
  show "fst (getFallbackQuote e s) =
     (fst (fst (selectFallbackQuote e s)))\<lparr>category := Some (fst (getLeastUsedCategory e s))\<rparr>"
    using selectFallbackQuote_category [of e s]
    by (simp add: getFallbackQuote_def case_prod_beta)
next
  show "fst (fst (selectFallbackQuote e s)) \<in> set fallbackQuotes"
    by (rule selectFallbackQuote_in_table)
next
  have "category (fst (fst (selectFallbackQuote example_env karma_used_state))) \<noteq>
          Some (fst (getLeastUsedCategory example_env karma_used_state))"
    by (simp add: karma_used_selected karma_used_least yoga_entry)
  then show "\<exists>e' s'. category (fst (fst (selectFallbackQuote e' s'))) \<noteq>
                Some (fst (getLeastUsedCategory e' s'))"
    by blast
qed

theorem getFallbackQuote_category_overwritten_witness:
  "category (fst (getFallbackQuote example_env karma_used_state)) = Some (js ''karma'') \<and>
   shlok (fst (getFallbackQuote example_env karma_used_state)) = shlok (fallbackQuotes ! 3) \<and>
   category (fallbackQuotes ! 3) = Some (js ''yoga'')"
  using getFallbackQuote_category_overwritten [of example_env karma_used_state]
  by (simp add: karma_used_selected karma_used_least yoga_entry)

section \<open>The response parser\<close>





lemma match_braces_none:
  assumes "123 \<notin> set s \<or> 125 \<notin> set s"
  shows "match_braces s = None"
proof (cases "dropWhile (\<lambda>c. c \<noteq> 123) s")
  case Nil
  show ?thesis unfolding match_braces_def Nil by simp
next
  case (Cons b r)
  then have "123 \<in> set s"
    by (metis (mono_tags, lifting) dropWhile_eq_Nil_conv list.distinct(1))
  with assms have n: "125 \<notin> set s" by blast
  have "set r \<subseteq> set s"
    using Cons by (metis set_dropWhileD list.set_intros(2) subsetI)
  with n have "125 \<notin> set (rev r)" by auto
  then have e: "dropWhile (\<lambda>c. c \<noteq> 125) (rev r) = []"
    by auto
  show ?thesis unfolding match_braces_def Cons list.case e by simp
qed









lemma fuel_numeral:
  "parse_value (numeral k) s = parse_value (Suc (pred_numeral k)) s"
  "parse_elements (numeral k) acc s = parse_elements (Suc (pred_numeral k)) acc s"
  "parse_members (numeral k) macc s = parse_members (Suc (pred_numeral k)) macc s"
  "backtrack s (numeral k) = backtrack s (Suc (pred_numeral k))"
  by (simp_all only: numeral_eq_Suc)

lemmas parse_eval =
  parseAIResponse_def parseAIResponse_try_def extract_json_def match_braces_def JSON_parse_def
  skip_ws_def json_ws_def get_prop_def trim_def isWhiteSpace_def fuel_numeral
  parseTextFormatResponse_def match_rest_def capture_run_def Error_def
  parse_number_def parse_int_part_def parse_frac_part_def parse_exp_part_def is_digit_def
  hex4_def hex_val_def num_is_zero_def





lemma blank_meaning_parse:
  "parseAIResponse blank_meaning_response =
     Inr \<lparr>shlok = js ''x'', meaning_hindi = [], meaning_english = js ''e'',
           source = js ''s'', category = None\<rparr>"
  by (simp add: blank_meaning_response_def parse_eval)






lemma generateQuoteWithAI_reply:
  assumes "api_key e" and "completion e (length (ai_requests s)) = Content (Some response)"
    and "response \<noteq> []" and "parseAIResponse response = Inr candidate"
    and "fst (checkQuoteUniqueness e (s\<lparr>n_select := n_select s + 2\<rparr>) (shlok candidate))"
  shows "fst (generateQuoteWithAI e s) = candidate"
  using assms
  by (simp add: generateQuoteWithAI_def Let_def case_prod_beta create_completion_def
      fst_checkQuoteUniqueness)

text \<open>
  C4, at a failing reply.  The capability answers with a structured block whose Hindi
  meaning is a single space.  The block passes the parser's check, which is made before
  trimming, and the generator returns a record whose Hindi meaning is empty.
\<close>

theorem generateQuoteWithAI_blank_field:
  "fst (generateQuoteWithAI
          (example_env\<lparr>completion := (\<lambda>n. Content (Some blank_meaning_response))\<rparr>)
          empty_state) =
     \<lparr>shlok = js ''x'', meaning_hindi = [], meaning_english = js ''e'',
      source = js ''s'', category = None\<rparr>"
proof (rule generateQuoteWithAI_reply)
  let ?e = "example_env\<lparr>completion := (\<lambda>n. Content (Some blank_meaning_response))\<rparr>"
  show "api_key ?e" by (simp add: example_env_def)
  show "completion ?e (length (ai_requests empty_state)) = Content (Some blank_meaning_response)"
    by simp
  show "blank_meaning_response \<noteq> []" by (simp add: blank_meaning_response_def)
  show "parseAIResponse blank_meaning_response =
     Inr \<lparr>shlok = js ''x'', meaning_hindi = [], meaning_english = js ''e'',
           source = js ''s'', category = None\<rparr>"
    by (rule blank_meaning_parse)
  show "fst (checkQuoteUniqueness ?e (empty_state\<lparr>n_select := n_select empty_state + 2\<rparr>)
          (shlok \<lparr>shlok = js ''x'', meaning_hindi = [], meaning_english = js ''e'',
                  source = js ''s'', category = None\<rparr>))"
    by (simp add: fst_checkQuoteUniqueness isUniqueAmong_def recent_shloks_def
        order_by_date_desc_def example_env_def empty_state_def fetched_def)
qed


section \<open>The retry bound\<close>

lemma suc_forms:
  "n + 3 = Suc (Suc (Suc n))" "n + 4 = Suc (Suc (Suc (Suc n)))"
  "n + 5 = Suc (Suc (Suc (Suc (Suc n))))" "n + 6 = Suc (Suc (Suc (Suc (Suc (Suc n)))))"
  "3 + n = Suc (Suc (Suc n))" "4 + n = Suc (Suc (Suc (Suc n)))"
  "5 + n = Suc (Suc (Suc (Suc (Suc n))))" "6 + n = Suc (Suc (Suc (Suc (Suc (Suc n)))))"
  by simp_all

lemma ai_requests_retry:
  "ai_requests (snd (generateQuoteWithAIRetry e s)) =
     (if api_key e
      then ai_requests s @
             [\<lparr>system_content = system_retry,
               user_content = RetryPrompt (fst (getLeastUsedCategory e s)),
               max_tokens = 500, temperature10 = 10\<rparr>]
      else ai_requests s)"
  by (simp add: generateQuoteWithAIRetry_def case_prod_beta create_completion_def
      split: ai_reply.splits option.splits sum.splits)

lemma new_requests_generate:
  "length (new_requests s (snd (generateQuoteWithAI e s))) \<le> 2"
  by (simp add: generateQuoteWithAI_def Let_def case_prod_beta create_completion_def
      new_requests_def ai_requests_retry
      split: ai_reply.splits option.splits sum.splits)

lemma retry_nonunique:
  assumes "api_key e" and "completion e (length (ai_requests s)) = Content (Some response)"
    and "response \<noteq> []" and "parseAIResponse response = Inr candidate"
    and "\<not> fst (checkQuoteUniqueness e (s\<lparr>n_select := n_select s + 1\<rparr>) (shlok candidate))"
  shows "fst (generateQuoteWithAIRetry e s) =
           fst (getFallbackQuote e (s\<lparr>n_select := n_select s + 2\<rparr>))"
  using assms
  by (simp add: generateQuoteWithAIRetry_def case_prod_beta create_completion_def
      fst_checkQuoteUniqueness fst_getFallbackQuote fst_getLeastUsedCategory suc_forms)

lemma first_nonunique_requests:
  assumes "api_key e" and "completion e (length (ai_requests s)) = Content (Some response)"
    and "response \<noteq> []" and "parseAIResponse response = Inr candidate"
    and "\<not> fst (checkQuoteUniqueness e (s\<lparr>n_select := n_select s + 2\<rparr>) (shlok candidate))"
  shows "map request_profile (new_requests s (snd (generateQuoteWithAI e s))) =
           [(system_first, 9), (system_retry, 10)]"
  using assms
  by (simp add: generateQuoteWithAI_def Let_def case_prod_beta create_completion_def
      fst_checkQuoteUniqueness ai_requests_retry new_requests_def request_profile_def
      suc_forms)

lemma both_nonunique_fallback:
  assumes "api_key e" and "completion e (length (ai_requests s)) = Content (Some response)"
    and "response \<noteq> []" and "parseAIResponse response = Inr candidate"
    and "\<not> fst (checkQuoteUniqueness e (s\<lparr>n_select := n_select s + 2\<rparr>) (shlok candidate))"
    and "completion e (length (ai_requests s) + 1) = Content (Some response2)"
    and "response2 \<noteq> []" and "parseAIResponse response2 = Inr candidate2"
    and "\<not> fst (checkQuoteUniqueness e (s\<lparr>n_select := n_select s + 4\<rparr>) (shlok candidate2))"
  shows "fst (generateQuoteWithAI e s) =
           fst (getFallbackQuote e (s\<lparr>n_select := n_select s + 5\<rparr>))"
  using assms
  by (simp add: generateQuoteWithAI_def generateQuoteWithAIRetry_def Let_def case_prod_beta
      create_completion_def fst_checkQuoteUniqueness fst_getFallbackQuote
      fst_getLeastUsedCategory suc_forms)

lemma system_instructions_differ: "system_first \<noteq> system_retry"
  by (simp add: system_first_def system_retry_def)


text \<open>
  C5.  One invocation of \<open>generateQuoteWithAI\<close> makes at most two completion requests.
  When the first reply parses to a candidate that the uniqueness check rejects, exactly two
  requests are made: the first with the first system instruction at temperature 0.9, the
  second with the other system instruction at temperature 1.0.  When the retry's reply
  parses to a candidate that is rejected as well, the result is that of the fallback table
  path, and there is no third request.
\<close>

theorem generateQuoteWithAI_retry_bound:
  "length (new_requests s (snd (generateQuoteWithAI e s))) \<le> 2 \<and>
   (api_key e \<and> completion e (length (ai_requests s)) = Content (Some response) \<and>
    response \<noteq> [] \<and> parseAIResponse response = Inr candidate \<and>
    \<not> fst (checkQuoteUniqueness e (s\<lparr>n_select := n_select s + 2\<rparr>) (shlok candidate)) \<longrightarrow>
      map request_profile (new_requests s (snd (generateQuoteWithAI e s))) =
        [(system_first, 9), (system_retry, 10)] \<and>
      system_first \<noteq> system_retry \<and>
      (completion e (length (ai_requests s) + 1) = Content (Some response2) \<and>
       response2 \<noteq> [] \<and> parseAIResponse response2 = Inr candidate2 \<and>
       \<not> fst (checkQuoteUniqueness e (s\<lparr>n_select := n_select s + 4\<rparr>) (shlok candidate2)) \<longrightarrow>
         fst (generateQuoteWithAI e s) =
           fst (getFallbackQuote e (s\<lparr>n_select := n_select s + 5\<rparr>))))"
proof (intro conjI impI)
  show "length (new_requests s (snd (generateQuoteWithAI e s))) \<le> 2"
    by (rule new_requests_generate)
next
  assume "api_key e \<and> completion e (length (ai_requests s)) = Content (Some response) \<and>
    response \<noteq> [] \<and> parseAIResponse response = Inr candidate \<and>
    \<not> fst (checkQuoteUniqueness e (s\<lparr>n_select := n_select s + 2\<rparr>) (shlok candidate))"
  then show "map request_profile (new_requests s (snd (generateQuoteWithAI e s))) =
        [(system_first, 9), (system_retry, 10)]"
    by (elim conjE) (rule first_nonunique_requests; assumption)
next
  show "system_first \<noteq> system_retry"
    by (rule system_instructions_differ)
next
  assume "api_key e \<and> completion e (length (ai_requests s)) = Content (Some response) \<and>
    response \<noteq> [] \<and> parseAIResponse response = Inr candidate \<and>
    \<not> fst (checkQuoteUniqueness e (s\<lparr>n_select := n_select s + 2\<rparr>) (shlok candidate))"
    and "completion e (length (ai_requests s) + 1) = Content (Some response2) \<and>
       response2 \<noteq> [] \<and> parseAIResponse response2 = Inr candidate2 \<and>
       \<not> fst (checkQuoteUniqueness e (s\<lparr>n_select := n_select s + 4\<rparr>) (shlok candidate2))"
  then show "fst (generateQuoteWithAI e s) =
           fst (getFallbackQuote e (s\<lparr>n_select := n_select s + 5\<rparr>))"
    by (elim conjE) (rule both_nonunique_fallback; assumption)
qed

text \<open>
  The history holds \<open>abc\<close> and the capability answers \<open>abcd\<close> twice: two requests, then
  the fallback table.
\<close>

lemma abcd_parse:
  "parseAIResponse abcd_response =
     Inr \<lparr>shlok = js ''abcd'', meaning_hindi = js ''h'', meaning_english = js ''e'',
           source = js ''s'', category = None\<rparr>"
  by (simp add: abcd_response_def parse_eval)

lemma abcd_not_unique:
  "\<not> fst (checkQuoteUniqueness (example_env\<lparr>completion := c\<rparr>)
          ((one_publication (js ''abc'') (js ''2025-05-31''))\<lparr>n_select := k\<rparr>) (js ''abcd''))"
  by (simp add: fst_checkQuoteUniqueness fetched_def isUniqueAmong_def recent_shloks_def
      example_env_def one_publication_def empty_state_def order_by_date_desc_def quote_of_def
      toLowerCase_def lowerUnit_def trim_def isWhiteSpace_def)

theorem generateQuoteWithAI_retry_bound_witness:
  "map request_profile
     (new_requests (one_publication (js ''abc'') (js ''2025-05-31''))
        (snd (generateQuoteWithAI
                (example_env\<lparr>completion := (\<lambda>n. Content (Some abcd_response))\<rparr>)
                (one_publication (js ''abc'') (js ''2025-05-31''))))) =
     [(system_first, 9), (system_retry, 10)] \<and>
   fst (generateQuoteWithAI
          (example_env\<lparr>completion := (\<lambda>n. Content (Some abcd_response))\<rparr>)
          (one_publication (js ''abc'') (js ''2025-05-31''))) =
     fst (getFallbackQuote
            (example_env\<lparr>completion := (\<lambda>n. Content (Some abcd_response))\<rparr>)
            ((one_publication (js ''abc'') (js ''2025-05-31''))\<lparr>n_select := 5\<rparr>))"
proof -
  let ?e = "example_env\<lparr>completion := (\<lambda>n. Content (Some abcd_response))\<rparr>"
  let ?s = "one_publication (js ''abc'') (js ''2025-05-31'')"
  let ?q = "\<lparr>shlok = js ''abcd'', meaning_hindi = js ''h'', meaning_english = js ''e'',
             source = js ''s'', category = None\<rparr>"
  have n0: "n_select ?s = 0"
    by (simp add: one_publication_def empty_state_def)
  have k: "api_key ?e"
    by (simp add: example_env_def)
  have r: "completion ?e n = Content (Some abcd_response)" for n
    by simp
  have ne: "abcd_response \<noteq> []"
    by (simp add: abcd_response_def)
  have d: "\<not> fst (checkQuoteUniqueness ?e (?s\<lparr>n_select := n_select ?s + j\<rparr>) (shlok ?q))" for j
    using abcd_not_unique [of "\<lambda>n. Content (Some abcd_response)" "n_select ?s + j"] by simp
  note bound = generateQuoteWithAI_retry_bound [of ?s ?e abcd_response ?q abcd_response ?q]
  have h1: "api_key ?e \<and> completion ?e (length (ai_requests ?s)) = Content (Some abcd_response) \<and>
    abcd_response \<noteq> [] \<and> parseAIResponse abcd_response = Inr ?q \<and>
    \<not> fst (checkQuoteUniqueness ?e (?s\<lparr>n_select := n_select ?s + 2\<rparr>) (shlok ?q))"
    by (intro conjI) (rule k r ne abcd_parse d)+
  have h2: "completion ?e (length (ai_requests ?s) + 1) = Content (Some abcd_response) \<and>
    abcd_response \<noteq> [] \<and> parseAIResponse abcd_response = Inr ?q \<and>
    \<not> fst (checkQuoteUniqueness ?e (?s\<lparr>n_select := n_select ?s + 4\<rparr>) (shlok ?q))"
    by (intro conjI) (rule r ne abcd_parse d)+
  from bound h1 have a: "map request_profile (new_requests ?s (snd (generateQuoteWithAI ?e ?s))) =
        [(system_first, 9), (system_retry, 10)]"
    by blast
  from bound h1 h2 have "fst (generateQuoteWithAI ?e ?s) =
           fst (getFallbackQuote ?e (?s\<lparr>n_select := n_select ?s + 5\<rparr>))"
    by blast
  then have b: "fst (generateQuoteWithAI ?e ?s) = fst (getFallbackQuote ?e (?s\<lparr>n_select := 5\<rparr>))"
    by (simp only: n0 add_0)
  show ?thesis
    using a b by (rule conjI)
qed


section \<open>Publication: idempotence\<close>

lemma writes_nothing_refl [simp]: "writes_nothing s s"
  by (simp add: writes_nothing_def)

lemma writes_nothing_getFallbackQuote: "writes_nothing s (snd (getFallbackQuote e s))"
  by (simp add: writes_nothing_def)

lemma frame_generateQuoteWithAIRetry:
  "writes_nothing s (snd (generateQuoteWithAIRetry e s)) \<and>
   n_generate (snd (generateQuoteWithAIRetry e s)) = n_generate s"
  by (simp add: generateQuoteWithAIRetry_def case_prod_beta create_completion_def
      writes_nothing_def split: ai_reply.splits option.splits sum.splits)

lemma frame_generateQuoteWithAI:
  "writes_nothing s (snd (generateQuoteWithAI e s)) \<and>
   n_generate (snd (generateQuoteWithAI e s)) = n_generate s + 1"
proof -
  have r: "writes_nothing s' (snd (generateQuoteWithAIRetry e s')) \<and>
           n_generate (snd (generateQuoteWithAIRetry e s')) = n_generate s'" for s'
    by (rule frame_generateQuoteWithAIRetry)
  show ?thesis
    using r
    by (simp add: generateQuoteWithAI_def Let_def case_prod_beta create_completion_def
        writes_nothing_def split: ai_reply.splits option.splits sum.splits)
qed

lemma str_less_irrefl [simp]: "\<not> str_less s s"
  by (induction s) simp_all








section \<open>Publication: failures of the store\<close>

lemma frame_getTodayQuote:
  "writes_nothing s (snd (getTodayQuote e s)) \<and>
   n_generate (snd (getTodayQuote e s)) = n_generate s \<and>
   ai_requests (snd (getTodayQuote e s)) = ai_requests s"
  by (simp add: getTodayQuote_def getQuoteByDate_def select_request_def writes_nothing_def
      split: fault.splits option.splits)

lemma insert_quote_error:
  "insert_fault e (n_insert s) = Returns_error x \<Longrightarrow>
   insert_quote e s a ts = (Inr (Response None (Some x)), s\<lparr>n_insert := n_insert s + 1\<rparr>)"
  by (simp add: insert_quote_def)

lemma insert_quote_throws:
  "insert_fault e (n_insert s) = Throws x \<Longrightarrow>
   insert_quote e s a ts = (Inl x, s\<lparr>n_insert := n_insert s + 1\<rparr>)"
  by (simp add: insert_quote_def)

lemma insert_quote_check:
  "insert_fault e (n_insert s) = Succeeds \<Longrightarrow> category a = Some c \<Longrightarrow>
   c \<notin> set QUOTE_CATEGORIES \<Longrightarrow>
   insert_quote e s a ts =
     (Inr (Response None (Some check_violation)), s\<lparr>n_insert := n_insert s + 1\<rparr>)"
  by (simp add: insert_quote_def)

lemma frame_insert_quote:
  "n_insert (snd (insert_quote e s a ts)) = n_insert s + 1 \<and>
   n_generate (snd (insert_quote e s a ts)) = n_generate s \<and>
   n_upsert (snd (insert_quote e s a ts)) = n_upsert s \<and>
   n_delete (snd (insert_quote e s a ts)) = n_delete s \<and>
   daily_logs (snd (insert_quote e s a ts)) = daily_logs s"
  by (simp add: insert_quote_def Let_def split: fault.splits option.splits)

lemma frame_logQuoteForToday:
  "n_insert (snd (logQuoteForToday e s i ts)) = n_insert s \<and>
   n_generate (snd (logQuoteForToday e s i ts)) = n_generate s \<and>
   n_select (snd (logQuoteForToday e s i ts)) = n_select s \<and>
   n_delete (snd (logQuoteForToday e s i ts)) = n_delete s \<and>
   quotes (snd (logQuoteForToday e s i ts)) = quotes s"
  by (simp add: logQuoteForToday_def upsert_daily_log_def Let_def
      split: fault.splits option.splits sum.splits)

lemma frame_delete_quote:
  "n_insert (snd (delete_quote e s i)) = n_insert s \<and>
   n_generate (snd (delete_quote e s i)) = n_generate s \<and>
   n_delete (snd (delete_quote e s i)) = n_delete s + 1"
  by (simp add: delete_quote_def Let_def split: fault.splits)

lemma frame_logOrReturnExisting:
  "n_insert (snd (logOrReturnExisting e s q ts)) = n_insert s \<and>
   n_generate (snd (logOrReturnExisting e s q ts)) = n_generate s"
proof -
  obtain r1 s1 where l: "logQuoteForToday e s (id' q) ts = (r1, s1)"
    by (cases "logQuoteForToday e s (id' q) ts")
  have f1: "n_insert s1 = n_insert s" "n_generate s1 = n_generate s"
    using frame_logQuoteForToday [of e s "id' q" ts] l by simp_all
  obtain r2 s2 where g: "getTodayQuote e s1 = (r2, s2)"
    by (cases "getTodayQuote e s1")
  have f2: "n_insert s2 = n_insert s1" "n_generate s2 = n_generate s1"
    using frame_getTodayQuote [of s1 e] g by (simp_all add: writes_nothing_def)
  obtain r3 s3 where d: "delete_quote e s2 (id' q) = (r3, s3)"
    by (cases "delete_quote e s2 (id' q)")
  have f3: "n_insert s3 = n_insert s2" "n_generate s3 = n_generate s2"
    using frame_delete_quote [of e s2 "id' q"] d by simp_all
  show ?thesis
    by (simp add: logOrReturnExisting_def l g d f1 f2 f3
        split: sum.splits option.splits)
qed


lemma snd_insert_quote_failed:
  "insert_fault e (n_insert s) \<noteq> Succeeds \<Longrightarrow>
   snd (insert_quote e s a ts) = s\<lparr>n_insert := n_insert s + 1\<rparr>"
  by (cases "insert_fault e (n_insert s)") (simp_all add: insert_quote_def)

text \<open>
  C9.  The first insert fails with a uniqueness violation that names \<open>unique_shlok\<close>.  Then
  the generator is invoked exactly once more and the insert is attempted exactly once more.
  If this second insert fails as well (the store returns an error, the request throws, or
  the replacement's category violates the CHECK constraint), the call ends in an error and
  has made no upsert and no delete request and has changed neither table.
\<close>

theorem generateAndStoreQuote_unique_shlok_retry:
  assumes "today e \<noteq> []"
    and "fst (getTodayQuote e s) = Inr None"
    and "get6AMISTTimestamp e (today e) = Inr sixAMIST"
    and "insert_fault e (n_insert s) = Returns_error insertError"
    and "code insertError = Some (js ''23505'')"
    and "js_includes (message insertError) (js ''unique_shlok'')"
    and "generateAndStoreQuote e s = (r, s')"
  shows "n_generate s' = n_generate s + 2 \<and> n_insert s' = n_insert s + 2 \<and>
     (insert_fault e (n_insert s + 1) = Returns_error retryError \<longrightarrow>
        r = Inl (Error (js ''Failed to insert quote after retry: '' @ message retryError)) \<and>
        n_upsert s' = n_upsert s \<and> n_delete s' = n_delete s \<and>
        daily_logs s' = daily_logs s \<and> quotes s' = quotes s) \<and>
     (insert_fault e (n_insert s + 1) = Throws thrown \<longrightarrow>
        r = Inl thrown \<and>
        n_upsert s' = n_upsert s \<and> n_delete s' = n_delete s \<and>
        daily_logs s' = daily_logs s \<and> quotes s' = quotes s) \<and>
     (insert_fault e (n_insert s + 1) = Succeeds \<and>
      category (fst (replacement e s sixAMIST)) = Some c \<and> c \<notin> set QUOTE_CATEGORIES \<longrightarrow>
        r = Inl (Error (js ''Failed to insert quote after retry: '' @ message check_violation)) \<and>
        n_upsert s' = n_upsert s \<and> n_delete s' = n_delete s \<and>
        daily_logs s' = daily_logs s \<and> quotes s' = quotes s)"
proof -
  define s1 where "s1 = snd (getTodayQuote e s)"
  have t: "getTodayQuote e s = (Inr None, s1)"
    using assms(2) by (simp add: s1_def prod_eq_iff)
  have w1: "writes_nothing s s1" "n_generate s1 = n_generate s"
    using frame_getTodayQuote [of s e] by (simp_all add: s1_def)
  obtain a1 s2 where g1: "generateQuoteWithAI e s1 = (a1, s2)"
    by (cases "generateQuoteWithAI e s1")
  have w2: "writes_nothing s1 s2" "n_generate s2 = n_generate s1 + 1"
    using frame_generateQuoteWithAI [of s1 e] g1 by simp_all
  have n2: "n_insert s2 = n_insert s"
    using w1 w2 by (simp add: writes_nothing_def)
  define s3 where "s3 = s2\<lparr>n_insert := n_insert s2 + 1\<rparr>"
  have i1: "insert_quote e s2 a ts = (Inr (Response None (Some insertError)), s3)" for a ts
    unfolding s3_def using assms(4) n2 by (intro insert_quote_error) simp
  obtain a2 s4 where g2: "generateQuoteWithAI e s3 = (a2, s4)"
    by (cases "generateQuoteWithAI e s3")
  have w4: "writes_nothing s3 s4" "n_generate s4 = n_generate s3 + 1"
    using frame_generateQuoteWithAI [of s3 e] g2 by simp_all
  have rep: "replacement e s sixAMIST = (a2, s4)"
    by (simp add: replacement_def s1_def [symmetric] g1 i1 g2)
  have n4: "n_insert s4 = n_insert s + 1" "n_generate s4 = n_generate s + 2"
    "n_upsert s4 = n_upsert s" "n_delete s4 = n_delete s"
    "daily_logs s4 = daily_logs s" "quotes s4 = quotes s"
    using w1 w2 w4 n2 by (simp_all add: writes_nothing_def s3_def)
  obtain r5 s5 where i2: "insert_quote e s4 a2 sixAMIST = (r5, s5)"
    by (cases "insert_quote e s4 a2 sixAMIST")
  have f5: "n_insert s5 = n_insert s + 2" "n_generate s5 = n_generate s + 2"
    using frame_insert_quote [of e s4 a2 sixAMIST] i2 n4 by simp_all
  have unfold: "generateAndStoreQuote e s =
      (case (r5, s5) of
         (Inl x, s5) \<Rightarrow> (Inl x, s5)
       | (Inr (Response retryQuote (Some retryError)), s5) \<Rightarrow>
           (Inl (Error (js ''Failed to insert quote after retry: '' @ message retryError)), s5)
       | (Inr (Response None None), s5) \<Rightarrow>
           (Inl (Error (js ''Cannot read properties of null'')), s5)
       | (Inr (Response (Some retryQuote) None), s5) \<Rightarrow>
           logOrReturnExisting e s5 retryQuote sixAMIST)"
    using assms(1,3,5,6)
    by (simp add: generateAndStoreQuote_def t g1 i1 g2 i2)
  have fl: "n_insert s'' = n_insert s5 \<and> n_generate s'' = n_generate s5"
    if "logOrReturnExisting e s5 q sixAMIST = (r', s'')" for q r' s''
    using frame_logOrReturnExisting [of e s5 q sixAMIST] that by simp
  have counts: "n_generate s' = n_generate s + 2 \<and> n_insert s' = n_insert s + 2"
    using assms(7) unfold f5
    by (auto split: sum.splits response.splits option.splits dest: fl)
  have fail: "r = Inl x \<and> n_upsert s' = n_upsert s \<and> n_delete s' = n_delete s \<and>
        daily_logs s' = daily_logs s \<and> quotes s' = quotes s"
    if "insert_quote e s4 a2 sixAMIST = (Inl x, s4\<lparr>n_insert := n_insert s4 + 1\<rparr>)" for x
    using assms(7) unfold that i2 n4 by auto
  have fail2: "r = Inl (Error (js ''Failed to insert quote after retry: '' @ message x)) \<and>
        n_upsert s' = n_upsert s \<and> n_delete s' = n_delete s \<and>
        daily_logs s' = daily_logs s \<and> quotes s' = quotes s"
    if "insert_quote e s4 a2 sixAMIST =
          (Inr (Response None (Some x)), s4\<lparr>n_insert := n_insert s4 + 1\<rparr>)" for x
    using assms(7) unfold that i2 n4 by auto
  show ?thesis
  proof (intro conjI impI)
    show "n_generate s' = n_generate s + 2" "n_insert s' = n_insert s + 2"
      using counts by simp_all
  next
    assume "insert_fault e (n_insert s + 1) = Returns_error retryError"
    then have "insert_quote e s4 a2 sixAMIST =
          (Inr (Response None (Some retryError)), s4\<lparr>n_insert := n_insert s4 + 1\<rparr>)"
      using n4 by (intro insert_quote_error) simp
    from fail2 [OF this]
    show "r = Inl (Error (js ''Failed to insert quote after retry: '' @ message retryError))"
      "n_upsert s' = n_upsert s" "n_delete s' = n_delete s"
      "daily_logs s' = daily_logs s" "quotes s' = quotes s"
      by simp_all
  next
    assume "insert_fault e (n_insert s + 1) = Throws thrown"
    then have "insert_quote e s4 a2 sixAMIST = (Inl thrown, s4\<lparr>n_insert := n_insert s4 + 1\<rparr>)"
      using n4 by (intro insert_quote_throws) simp
    from fail [OF this]
    show "r = Inl thrown"
      "n_upsert s' = n_upsert s" "n_delete s' = n_delete s"
      "daily_logs s' = daily_logs s" "quotes s' = quotes s"
      by simp_all
  next
    assume "insert_fault e (n_insert s + 1) = Succeeds \<and>
      category (fst (replacement e s sixAMIST)) = Some c \<and> c \<notin> set QUOTE_CATEGORIES"
    then have "insert_quote e s4 a2 sixAMIST =
          (Inr (Response None (Some check_violation)), s4\<lparr>n_insert := n_insert s4 + 1\<rparr>)"
      using n4 rep by (elim conjE, intro insert_quote_check [where c = c]) simp_all
    from fail2 [OF this]
    show "r = Inl (Error (js ''Failed to insert quote after retry: '' @ message check_violation))"
      "n_upsert s' = n_upsert s" "n_delete s' = n_delete s"
      "daily_logs s' = daily_logs s" "quotes s' = quotes s"
      by simp_all
  qed
qed


theorem generateAndStoreQuote_unique_shlok_retry_witness:
  "fst (generateAndStoreQuote unique_shlok_env empty_state) =
     Inl (Error (js ''Failed to insert quote after retry: '' @ message unique_shlok_error)) \<and>
   n_generate (snd (generateAndStoreQuote unique_shlok_env empty_state)) = 2 \<and>
   n_insert (snd (generateAndStoreQuote unique_shlok_env empty_state)) = 2 \<and>
   n_upsert (snd (generateAndStoreQuote unique_shlok_env empty_state)) = 0 \<and>
   n_delete (snd (generateAndStoreQuote unique_shlok_env empty_state)) = 0 \<and>
   daily_logs (snd (generateAndStoreQuote unique_shlok_env empty_state)) = [] \<and>
   quotes (snd (generateAndStoreQuote unique_shlok_env empty_state)) = []"
proof -
  have a: "today unique_shlok_env \<noteq> []"
    by (simp add: unique_shlok_env_def example_env_def)
  have b: "fst (getTodayQuote unique_shlok_env empty_state) = Inr None"
    by (simp add: getTodayQuote_def getQuoteByDate_def select_request_def unique_shlok_env_def
        example_env_def empty_state_def)
  have c: "get6AMISTTimestamp unique_shlok_env (today unique_shlok_env) =
      Inr (js ''2025-06-01T00:30:00.000Z'')"
    by (simp add: get6AMISTTimestamp_def unique_shlok_env_def example_env_def is_digit_def)
  have d: "insert_fault unique_shlok_env n = Returns_error unique_shlok_error" for n
    by (simp add: unique_shlok_env_def)
  have f: "code unique_shlok_error = Some (js ''23505'')"
    "js_includes (message unique_shlok_error) (js ''unique_shlok'')"
    by (simp_all add: unique_shlok_error_def)
  have g: "n_generate empty_state = 0" "n_insert empty_state = 0" "n_upsert empty_state = 0"
    "n_delete empty_state = 0" "daily_logs empty_state = []" "quotes empty_state = []"
    by (simp_all add: empty_state_def)
  have h: "generateAndStoreQuote unique_shlok_env empty_state =
     (fst (generateAndStoreQuote unique_shlok_env empty_state),
      snd (generateAndStoreQuote unique_shlok_env empty_state))"
    by simp
  from generateAndStoreQuote_unique_shlok_retry
    [OF a b c d f h, of unique_shlok_error unique_shlok_error "[]"]
  show ?thesis
    unfolding d g by simp
qed


end
